theory Spec2Isabelle
  imports Complex_Main
begin

section \<open>Numbers\<close>

text \<open>
  JavaScript numbers are modelled as the reals: every coordinate is a \<^typ>\<open>real\<close>,
  \<open>Math.cos\<close>, \<open>Math.sin\<close> and \<open>Math.sqrt\<close> are the real functions and
  \<open>Math.PI\<close> is \<^term>\<open>pi\<close>.  \<open>Math.round\<close> rounds to the nearest integer, a
  half going up (towards plus infinity).
\<close>

definition Math_round :: "real \<Rightarrow> real" where
  "Math_round v = of_int \<lfloor>v + 1 / 2\<rfloor>"

text \<open>The remainder operator \<open>a % b\<close>: the quotient is truncated towards zero.\<close>

definition js_rem :: "real \<Rightarrow> real \<Rightarrow> real" where
  "js_rem a b = a - b * (if 0 \<le> a / b then of_int \<lfloor>a / b\<rfloor> else of_int \<lceil>a / b\<rceil>)"

type_synonym point = "real \<times> real"

section \<open>RadarCanvas: the unrotated pixel mapping and the target remap\<close>

record radarCanvas =
  canvasWidth :: real
  canvasHeight :: real
  centerX :: real
  centerY :: real
  scaleX :: real
  scaleY :: real
  mapRotation :: real

definition X_MIN :: real where "X_MIN = -3000"
definition X_MAX :: real where "X_MAX = 3000"
definition Y_MIN :: real where "Y_MIN = 0"
definition Y_MAX :: real where "Y_MAX = 6000"

text \<open>
  \<open>resize()\<close>: the canvas is a square of the given size (the minimum of the container's
  sides and 900); the origin of the sensor is at the middle of the bottom side.
\<close>

definition resize :: "real \<Rightarrow> radarCanvas \<Rightarrow> radarCanvas" where
  "resize sz c =
     c\<lparr>canvasWidth := sz, canvasHeight := sz,
       centerX := sz / 2, centerY := sz,
       scaleX := sz / (X_MAX - X_MIN), scaleY := sz / (Y_MAX - Y_MIN)\<rparr>"

definition setMapRotation :: "real \<Rightarrow> radarCanvas \<Rightarrow> radarCanvas" where
  "setMapRotation degrees c = c\<lparr>mapRotation := js_rem degrees 360\<rparr>"

text \<open>The canvas the constructor builds (rotation 0), then sized and rotated.\<close>

definition newRadarCanvas :: "real \<Rightarrow> real \<Rightarrow> radarCanvas" where
  "newRadarCanvas sz degrees =
     setMapRotation degrees
       (resize sz \<lparr>canvasWidth = 0, canvasHeight = 0, centerX = 0, centerY = 0,
                      scaleX = 0, scaleY = 0, mapRotation = 0\<rparr>)"

definition toCanvasX :: "radarCanvas \<Rightarrow> real \<Rightarrow> real" where
  "toCanvasX c x = centerX c + x * scaleX c"

definition toCanvasY :: "radarCanvas \<Rightarrow> real \<Rightarrow> real" where
  "toCanvasY c y = centerY c - y * scaleY c"

definition toSensorX :: "radarCanvas \<Rightarrow> real \<Rightarrow> real" where
  "toSensorX c canvasX = (canvasX - centerX c) / scaleX c"

definition toSensorY :: "radarCanvas \<Rightarrow> real \<Rightarrow> real" where
  "toSensorY c canvasY = (centerY c - canvasY) / scaleY c"

text \<open>
  \<open>transformSensorToRoom\<close>: the per-case remap of a live target, a \<open>switch\<close> on the
  rotation with the identity as default.
\<close>

definition transformSensorToRoom :: "radarCanvas \<Rightarrow> real \<Rightarrow> real \<Rightarrow> point" where
  "transformSensorToRoom c sensorX sensorY =
     (if mapRotation c = 0 then (sensorX, sensorY)
      else if mapRotation c = 90 then (sensorY - 3000, sensorX + 3000)
      else if mapRotation c = 180 then (sensorX, Y_MAX - sensorY)
      else if mapRotation c = 270 then (- (sensorY - 3000), - sensorX + 3000)
      else (sensorX, sensorY))"

definition transformRoomToSensor :: "radarCanvas \<Rightarrow> real \<Rightarrow> real \<Rightarrow> point" where
  "transformRoomToSensor c roomX roomY =
     (if mapRotation c = 0 then (roomX, roomY)
      else if mapRotation c = 90 then (roomY - 3000, roomX + 3000)
      else if mapRotation c = 180 then (roomX, Y_MAX - roomY)
      else if mapRotation c = 270 then (3000 - roomY, 3000 - roomX)
      else (roomX, roomY))"

text \<open>
  The pixel at which \<open>drawTarget\<close> puts the marker of a target: the remap, then the
  unrotated scale.  Targets are drawn after the rotated drawing context is restored.
\<close>

definition drawTarget :: "radarCanvas \<Rightarrow> point \<Rightarrow> point" where
  "drawTarget c target =
     (let transformed = transformSensorToRoom c (fst target) (snd target)
      in (toCanvasX c (fst transformed), toCanvasY c (snd transformed)))"

section \<open>DrawingManager: the rotation about the centre of the canvas\<close>

text \<open>
  \<open>toSensorCoords\<close> undoes the rotation of the view about the centre of the canvas and
  then converts to sensor millimetres; \<open>toCanvasCoords\<close> converts to pixels and then
  rotates.  \<open>mapRotation || 0\<close> is the rotation itself for every number.
\<close>

definition toSensorCoords :: "radarCanvas \<Rightarrow> real \<Rightarrow> real \<Rightarrow> point" where
  "toSensorCoords c canvasX canvasY =
     (let cx = canvasWidth c / 2;
          cy = canvasHeight c / 2;
          rotation = mapRotation c;
          angle = - rotation * pi / 180;
          dx = canvasX - cx;
          dy = canvasY - cy;
          unrotatedX = cx + dx * cos angle - dy * sin angle;
          unrotatedY = cy + dx * sin angle + dy * cos angle
      in (toSensorX c unrotatedX, toSensorY c unrotatedY))"

definition toCanvasCoords :: "radarCanvas \<Rightarrow> real \<Rightarrow> real \<Rightarrow> point" where
  "toCanvasCoords c sensorX sensorY =
     (let unrotatedX = toCanvasX c sensorX;
          unrotatedY = toCanvasY c sensorY;
          cx = canvasWidth c / 2;
          cy = canvasHeight c / 2;
          rotation = mapRotation c;
          angle = rotation * pi / 180;
          dx = unrotatedX - cx;
          dy = unrotatedY - cy
      in (cx + dx * cos angle - dy * sin angle, cy + dx * sin angle + dy * cos angle))"

section \<open>The shapes\<close>

datatype shapeType = Rectangle | Polygon

datatype zoneType = Detection | Interference

text \<open>
  Zones and edges both carry a bounding box \<open>x1, y1, x2, y2\<close>.  A zone's \<open>vertices\<close>
  are \<open>null\<close> or a list; its \<open>zoneType\<close> may be unset (a falsy value), which is
  \<^term>\<open>None\<close> here.
\<close>

record bbox =
  x1 :: real
  y1 :: real
  x2 :: real
  y2 :: real

record zone = bbox +
  enabled :: bool
  shapeType :: shapeType
  vertices :: "point list option"
  zoneType :: "zoneType option"

text \<open>
  The identifiers \<open>furniture_<now>\<close>, \<open>entrance_<now>\<close> and \<open>edge_<now>\<close>, with the
  clock reading \<open>Date.now()\<close> that the placement is given.
\<close>

datatype itemId = FurnitureId nat | EntranceId nat | EdgeId nat

record edge = bbox +
  edgeId :: itemId

record item =
  ident :: itemId
  itemX :: real
  itemY :: real

record furniture = item +
  ftype :: string
  rotation :: real
  width :: real
  height :: real

text \<open>The label of an entrance is \<open>Entry n\<close>; the number is kept as it is.\<close>

datatype entryLabel = Entry nat

record entrance = item +
  direction :: real
  label :: entryLabel

section \<open>The state of the DrawingManager\<close>

datatype mode = Select | DrawRectangle | DrawPolygon | DrawEdge | PlaceFurniture
  | PlaceEntrance | Moving

datatype itemType = ZoneItem | FurnitureItem | EntranceItem | EdgeItem

datatype handleType = H_nw | H_ne | H_sw | H_se | H_n | H_s | H_w | H_e

datatype xField = X1 | X2

datatype yField = Y1 | Y2

text \<open>
  A resize handle: its type, its position (sensor millimetres for a zone or an edge,
  canvas pixels for furniture), the fields of the bounding box it updates (none for
  furniture), and what \<open>handleSelectMouseDown\<close> adds when it stores the handle.
\<close>

record handle =
  htype :: handleType
  hx :: real
  hy :: real
  updateX :: "xField option"
  updateY :: "yField option"
  zoneIndex :: "nat option"
  hitemType :: "itemType option"
  hindex :: "nat option"

datatype preview =
  RectPreview real real real real
  | PolygonPreview "point list"
  | EdgePreview real real real real

text \<open>
  The callbacks the host registers are modelled as a log of events, the newest last.
  A callback that is passed the shape as well reads it from the state.
\<close>

datatype errorMessage = MaximumZones | ZoneTooSmall | PolygonNeedsVertices

datatype event =
  OnModeChange mode
  | OnPreviewUpdate "preview option"
  | OnError errorMessage
  | OnZoneSelect "nat option"
  | OnFurnitureSelect "nat option"
  | OnEntranceSelect "nat option"
  | OnEdgeSelect "nat option"
  | OnZoneCreated nat
  | OnZoneUpdate "nat option"
  | OnZoneDeleted "nat option"
  | OnFurniturePlaced
  | OnFurnitureUpdate "nat option"
  | OnFurnitureDeleted "nat option"
  | OnEntrancePlaced
  | OnEntranceUpdate "nat option"
  | OnEntranceDeleted "nat option"
  | OnEdgePlaced
  | OnEdgeUpdate "nat option"
  | OnEdgeDeleted "nat option"

text \<open>
  The fields of the DrawingManager together with the shared state it mutates: the zone
  slots \<open>state.zones.zones\<close>, the lists \<open>state.annotations.furniture\<close>,
  \<open>entrances\<close> and \<open>edges\<close> (the host always initialises \<open>edges\<close> to a list),
  \<open>state.canvas.placingFurniture\<close> and the RadarCanvas.
\<close>

record drawingManager =
  radar :: radarCanvas
  zones :: "zone list"
  furniture :: "furniture list"
  entrances :: "entrance list"
  edges :: "edge list"
  placingFurniture :: "string option"
  mode :: mode
  isDrawing :: bool
  isDragging :: bool
  isMoving :: bool
  isRightClickDragging :: bool
  movingItemType :: "itemType option"
  movingItemIndex :: "nat option"
  moveOrigin :: "point option"
  startPoint :: "point option"
  currentPoint :: "point option"
  polygonVertices :: "point list"
  selectedZoneIndex :: "nat option"
  selectedFurnitureIndex :: "nat option"
  selectedEntranceIndex :: "nat option"
  selectedEdgeIndex :: "nat option"
  selectedHandle :: "handle option"
  dragOffset :: point
  previewRect :: "preview option"
  previewPolygon :: "point list"
  drawingEdge :: bool
  cursor :: string
  events :: "event list"

text \<open>
  Reading a property of \<open>undefined\<close> or \<open>null\<close> throws a \<open>TypeError\<close>;
  an array read out of range, or at the index \<open>null\<close>, gives \<open>undefined\<close>.
\<close>

datatype error = TypeError

definition elemAt :: "'a list \<Rightarrow> nat \<Rightarrow> 'a option" where
  "elemAt xs i = (if i < length xs then Some (xs ! i) else None)"

definition atIndex :: "'a list \<Rightarrow> nat option \<Rightarrow> 'a option" where
  "atIndex xs io = (case io of None \<Rightarrow> None | Some i \<Rightarrow> elemAt xs i)"

text \<open>\<open>xs.splice(i, 1)\<close> removes the element at \<open>i\<close>, if there is one.\<close>

definition splice1 :: "nat \<Rightarrow> 'a list \<Rightarrow> 'a list" where
  "splice1 i xs = take i xs @ drop (Suc i) xs"

definition emit :: "event \<Rightarrow> drawingManager \<Rightarrow> drawingManager" where
  "emit ev s = s\<lparr>events := events s @ [ev]\<rparr>"

definition handleSize :: real where "handleSize = 10"

definition furnitureHandleSize :: real where "furnitureHandleSize = 9"

section \<open>Mode and drawing state\<close>

definition resetDrawingState :: "drawingManager \<Rightarrow> drawingManager" where
  "resetDrawingState s =
     emit (OnPreviewUpdate None)
       (s\<lparr>isDrawing := False, isDragging := False, isMoving := False,
          movingItemType := None, movingItemIndex := None,
          startPoint := None, currentPoint := None, polygonVertices := [],
          previewRect := None, previewPolygon := [], selectedHandle := None\<rparr>)"

definition clearSelection :: "drawingManager \<Rightarrow> drawingManager" where
  "clearSelection s =
     emit (OnFurnitureSelect None)
       (emit (OnZoneSelect None)
          (s\<lparr>selectedZoneIndex := None, selectedFurnitureIndex := None,
             selectedHandle := None\<rparr>))"

definition updateCursor :: "drawingManager \<Rightarrow> drawingManager" where
  "updateCursor s =
     (case mode s of
        Select \<Rightarrow> s\<lparr>cursor := ''default''\<rparr>
      | DrawRectangle \<Rightarrow> s\<lparr>cursor := ''crosshair''\<rparr>
      | DrawPolygon \<Rightarrow> s\<lparr>cursor := ''crosshair''\<rparr>
      | DrawEdge \<Rightarrow> s\<lparr>cursor := ''crosshair''\<rparr>
      | PlaceFurniture \<Rightarrow> s\<lparr>cursor := ''copy''\<rparr>
      | PlaceEntrance \<Rightarrow> s\<lparr>cursor := ''copy''\<rparr>
      | Moving \<Rightarrow> s\<lparr>cursor := ''default''\<rparr>)"

definition setMode :: "mode \<Rightarrow> drawingManager \<Rightarrow> drawingManager" where
  "setMode m s = emit (OnModeChange m) (updateCursor (resetDrawingState (s\<lparr>mode := m\<rparr>)))"

section \<open>Zone slots\<close>

text \<open>
  \<open>getNextAvailableZoneSlot\<close>: the loop \<open>for (let i = 0; i < 3; i++)\<close> over the slots,
  returning the first index whose zone is not enabled and \<open>-1\<close> when the loop ends.
  Reading \<open>enabled\<close> of a slot that does not exist throws.
\<close>

fun firstFreeSlot :: "zone list \<Rightarrow> nat list \<Rightarrow> error + int" where
  "firstFreeSlot zs [] = Inr (- 1)"
| "firstFreeSlot zs (i # rest) =
     (case elemAt zs i of
        None \<Rightarrow> Inl TypeError
      | Some z \<Rightarrow> if \<not> enabled z then Inr (int i) else firstFreeSlot zs rest)"

definition getNextAvailableZoneSlot :: "drawingManager \<Rightarrow> error + int" where
  "getNextAvailableZoneSlot s = firstFreeSlot (zones s) [0, 1, 2]"

section \<open>Hit testing\<close>

text \<open>
  \<open>isPointInPolygon\<close>: ray casting over the vertices; \<open>j\<close> is the index before
  \<open>i\<close>, the last one at the start.  The second test is only evaluated when the two
  ends of the side lie on different sides of the ray, so \<open>yj - yi\<close> is not zero there.
\<close>

definition isPointInPolygon :: "real \<Rightarrow> real \<Rightarrow> point list \<Rightarrow> bool" where
  "isPointInPolygon x y vs =
     fold (\<lambda>i inside.
             let j = (if i = 0 then length vs - 1 else i - 1);
                 xi = fst (vs ! i); yi = snd (vs ! i);
                 xj = fst (vs ! j); yj = snd (vs ! j)
             in if ((yi > y) \<noteq> (yj > y)) \<and> x < (xj - xi) * (y - yi) / (yj - yi) + xi
                then \<not> inside else inside)
          [0..<length vs] False"

text \<open>Every caller of \<open>isPointInZone\<close> passes a zone that exists.\<close>

definition isPointInZone :: "real \<Rightarrow> real \<Rightarrow> zone \<Rightarrow> bool" where
  "isPointInZone sensorX sensorY z =
     (if \<not> enabled z then False
      else if shapeType z = Polygon \<and> vertices z \<noteq> None
        then isPointInPolygon sensorX sensorY (the (vertices z))
      else
        (let minX = min (x1 z) (x2 z); maxX = max (x1 z) (x2 z);
             minY = min (y1 z) (y2 z); maxY = max (y1 z) (y2 z)
         in sensorX \<ge> minX \<and> sensorX \<le> maxX \<and> sensorY \<ge> minY \<and> sensorY \<le> maxY))"

definition getZoneCorners :: "'a bbox_scheme \<Rightarrow> bbox" where
  "getZoneCorners z =
     \<lparr>x1 = min (x1 z) (x2 z), y1 = min (y1 z) (y2 z),
      x2 = max (x1 z) (x2 z), y2 = max (y1 z) (y2 z)\<rparr>"

text \<open>
  The eight handles of a bounding box, in the order of the array literal in
  \<open>getHandleAtPoint\<close> and \<open>getEdgeHandleAtPoint\<close>.
\<close>

definition mkHandle ::
  "handleType \<Rightarrow> real \<Rightarrow> real \<Rightarrow> xField option \<Rightarrow> yField option \<Rightarrow> handle" where
  "mkHandle t x y ux uy =
     \<lparr>htype = t, hx = x, hy = y, updateX = ux, updateY = uy,
      zoneIndex = None, hitemType = None, hindex = None\<rparr>"

definition boxHandles :: "bbox \<Rightarrow> handle list" where
  "boxHandles corners =
     [mkHandle H_nw (x1 corners) (y2 corners) (Some X1) (Some Y2),
      mkHandle H_ne (x2 corners) (y2 corners) (Some X2) (Some Y2),
      mkHandle H_sw (x1 corners) (y1 corners) (Some X1) (Some Y1),
      mkHandle H_se (x2 corners) (y1 corners) (Some X2) (Some Y1),
      mkHandle H_n ((x1 corners + x2 corners) / 2) (y2 corners) None (Some Y2),
      mkHandle H_s ((x1 corners + x2 corners) / 2) (y1 corners) None (Some Y1),
      mkHandle H_w (x1 corners) ((y1 corners + y2 corners) / 2) (Some X1) None,
      mkHandle H_e (x2 corners) ((y1 corners + y2 corners) / 2) (Some X2) None]"

definition handleHit :: "radarCanvas \<Rightarrow> real \<Rightarrow> real \<Rightarrow> handle \<Rightarrow> bool" where
  "handleHit c canvasX canvasY h =
     (let canvasHandle = toCanvasCoords c (hx h) (hy h);
          dx = canvasX - fst canvasHandle;
          dy = canvasY - snd canvasHandle
      in sqrt (dx * dx + dy * dy) \<le> handleSize)"

text \<open>\<open>getHandleAtPoint\<close> reads \<open>zone.enabled\<close> first: a missing zone throws.\<close>

definition getHandleAtPoint ::
  "radarCanvas \<Rightarrow> real \<Rightarrow> real \<Rightarrow> zone option \<Rightarrow> nat option \<Rightarrow> error + handle option" where
  "getHandleAtPoint c canvasX canvasY zo zoneIdx =
     (case zo of
        None \<Rightarrow> Inl TypeError
      | Some z \<Rightarrow>
          if \<not> enabled z \<or> shapeType z = Polygon then Inr None
          else Inr (map_option (\<lambda>h. h\<lparr>zoneIndex := zoneIdx\<rparr>)
                      (find (handleHit c canvasX canvasY) (boxHandles (getZoneCorners z)))))"

definition getEdgeHandleAtPoint ::
  "radarCanvas \<Rightarrow> real \<Rightarrow> real \<Rightarrow> edge option \<Rightarrow> handle option" where
  "getEdgeHandleAtPoint c canvasX canvasY eo =
     (case eo of
        None \<Rightarrow> None
      | Some e \<Rightarrow> find (handleHit c canvasX canvasY) (boxHandles (getZoneCorners e)))"

definition isPointInEntrance :: "real \<Rightarrow> real \<Rightarrow> entrance \<Rightarrow> bool" where
  "isPointInEntrance sensorX sensorY en =
     (let dx = sensorX - itemX en; dy = sensorY - itemY en;
          distance = sqrt (dx * dx + dy * dy)
      in distance \<le> 300)"

text \<open>\<open>isPointInFurniture\<close> starts with \<open>furniture.width\<close>: missing furniture throws.\<close>

definition isPointInFurniture :: "real \<Rightarrow> real \<Rightarrow> furniture option \<Rightarrow> error + bool" where
  "isPointInFurniture sensorX sensorY fo =
     (case fo of
        None \<Rightarrow> Inl TypeError
      | Some f \<Rightarrow>
          (let halfW = width f / 2; halfH = height f / 2;
               rot = rotation f * pi / 180;
               dx = sensorX - itemX f; dy = sensorY - itemY f;
               localX = dx * cos (- rot) - dy * sin (- rot);
               localY = dx * sin (- rot) + dy * cos (- rot)
           in Inr (\<bar>localX\<bar> \<le> halfW \<and> \<bar>localY\<bar> \<le> halfH)))"

definition furnitureHandleAt ::
  "real \<Rightarrow> real \<Rightarrow> real \<Rightarrow> real \<Rightarrow> real \<Rightarrow> real \<Rightarrow> real \<Rightarrow> handleType \<times> real \<times> real
     \<Rightarrow> handle option" where
  "furnitureHandleAt canvasX canvasY cx cy cs sn reach lh =
     (case lh of (t, lx, ly) \<Rightarrow>
        (let rx = lx * cs - ly * sn; ry = lx * sn + ly * cs;
             handleX = cx + rx; handleY = cy + ry;
             dx = canvasX - handleX; dy = canvasY - handleY
         in if sqrt (dx * dx + dy * dy) \<le> reach
            then Some (mkHandle t handleX handleY None None) else None))"

fun firstSome :: "('a \<Rightarrow> 'b option) \<Rightarrow> 'a list \<Rightarrow> 'b option" where
  "firstSome f [] = None"
| "firstSome f (a # rest) = (case f a of Some b \<Rightarrow> Some b | None \<Rightarrow> firstSome f rest)"

definition getFurnitureHandleAtPoint ::
  "radarCanvas \<Rightarrow> real \<Rightarrow> real \<Rightarrow> furniture option \<Rightarrow> handle option" where
  "getFurnitureHandleAtPoint c canvasX canvasY fo =
     (case fo of
        None \<Rightarrow> None
      | Some f \<Rightarrow>
          (let centerCanvas = toCanvasCoords c (itemX f) (itemY f);
               cx = fst centerCanvas; cy = snd centerCanvas;
               halfW = (width f * scaleX c) / 2;
               halfH = (height f * scaleY c) / 2;
               mapRot = mapRotation c * pi / 180;
               furnitureRotation = rotation f * pi / 180;
               totalRotation = mapRot + furnitureRotation
           in firstSome
                (furnitureHandleAt canvasX canvasY cx cy (cos totalRotation) (sin totalRotation)
                   (furnitureHandleSize + 4))
                [(H_nw, - halfW, - halfH), (H_ne, halfW, - halfH),
                 (H_sw, - halfW, halfH), (H_se, halfW, halfH)]))"

text \<open>\<open>isPointInEdge\<close> reads \<open>edge.x1\<close>: a missing edge throws.\<close>

definition isPointInEdge :: "real \<Rightarrow> real \<Rightarrow> edge option \<Rightarrow> error + bool" where
  "isPointInEdge sensorX sensorY eo =
     (case eo of
        None \<Rightarrow> Inl TypeError
      | Some e \<Rightarrow>
          (let minX = min (x1 e) (x2 e); maxX = max (x1 e) (x2 e);
               minY = min (y1 e) (y2 e); maxY = max (y1 e) (y2 e)
           in Inr (sensorX \<ge> minX \<and> sensorX \<le> maxX \<and> sensorY \<ge> minY \<and> sensorY \<le> maxY)))"

section \<open>Selection\<close>

text \<open>
  \<open>clearOtherSelections(keepType)\<close>: four tests in sequence, each clearing one index
  that is set and emitting its selection callback with \<open>null\<close>.
\<close>

definition clearOtherSelections :: "itemType option \<Rightarrow> drawingManager \<Rightarrow> drawingManager" where
  "clearOtherSelections keepType s0 =
     (let s1 = (if keepType \<noteq> Some ZoneItem \<and> selectedZoneIndex s0 \<noteq> None
                then emit (OnZoneSelect None) (s0\<lparr>selectedZoneIndex := None\<rparr>) else s0);
          s2 = (if keepType \<noteq> Some FurnitureItem \<and> selectedFurnitureIndex s1 \<noteq> None
                then emit (OnFurnitureSelect None) (s1\<lparr>selectedFurnitureIndex := None\<rparr>) else s1);
          s3 = (if keepType \<noteq> Some EntranceItem \<and> selectedEntranceIndex s2 \<noteq> None
                then emit (OnEntranceSelect None) (s2\<lparr>selectedEntranceIndex := None\<rparr>) else s2);
          s4 = (if keepType \<noteq> Some EdgeItem \<and> selectedEdgeIndex s3 \<noteq> None
                then emit (OnEdgeSelect None) (s3\<lparr>selectedEdgeIndex := None\<rparr>) else s3)
      in s4)"

text \<open>
  The blocks of \<open>handleSelectMouseDown\<close>, in the order of the source.  A block answers
  \<open>Some s'\<close> when the handler returns inside it with the state \<open>s'\<close>, and \<open>None\<close>
  when control falls through to the next block.
\<close>

definition centreOffset :: "point \<Rightarrow> 'a bbox_scheme \<Rightarrow> point" where
  "centreOffset sensorCoords b =
     (fst sensorCoords - (x1 b + x2 b) / 2, snd sensorCoords - (y1 b + y2 b) / 2)"

definition selectDownFurniture ::
  "point \<Rightarrow> point \<Rightarrow> drawingManager \<Rightarrow> error + drawingManager option" where
  "selectDownFurniture canvasCoords sensorCoords s =
     (case selectedFurnitureIndex s of
        None \<Rightarrow> Inr None
      | Some idx \<Rightarrow>
          (let fo = elemAt (furniture s) idx in
           case getFurnitureHandleAtPoint (radar s) (fst canvasCoords) (snd canvasCoords) fo of
             Some h \<Rightarrow>
               Inr (Some (s\<lparr>selectedHandle :=
                               Some (h\<lparr>hitemType := Some FurnitureItem, hindex := Some idx\<rparr>),
                             isDragging := True, startPoint := Some sensorCoords\<rparr>))
           | None \<Rightarrow>
               (case isPointInFurniture (fst sensorCoords) (snd sensorCoords) fo of
                  Inl e \<Rightarrow> Inl e
                | Inr inside \<Rightarrow>
                    if inside then
                      (case fo of
                         None \<Rightarrow> Inl TypeError
                       | Some f \<Rightarrow>
                           Inr (Some (s\<lparr>isDragging := True,
                                         dragOffset := (fst sensorCoords - itemX f,
                                                        snd sensorCoords - itemY f),
                                         cursor := ''move''\<rparr>)))
                    else Inr None)))"

definition selectDownZone ::
  "point \<Rightarrow> point \<Rightarrow> drawingManager \<Rightarrow> error + drawingManager option" where
  "selectDownZone canvasCoords sensorCoords s =
     (case selectedZoneIndex s of
        None \<Rightarrow> Inr None
      | Some idx \<Rightarrow>
          (let zo = elemAt (zones s) idx in
           case getHandleAtPoint (radar s) (fst canvasCoords) (snd canvasCoords) zo (Some idx) of
             Inl e \<Rightarrow> Inl e
           | Inr (Some h) \<Rightarrow>
               Inr (Some (s\<lparr>selectedHandle := Some (h\<lparr>hitemType := Some ZoneItem\<rparr>),
                             isDragging := True, startPoint := Some sensorCoords\<rparr>))
           | Inr None \<Rightarrow>
               (case zo of
                  None \<Rightarrow> Inl TypeError
                | Some z \<Rightarrow>
                    if enabled z \<and> isPointInZone (fst sensorCoords) (snd sensorCoords) z then
                      Inr (Some (s\<lparr>isDragging := True,
                                    dragOffset := centreOffset sensorCoords (getZoneCorners z),
                                    cursor := ''move''\<rparr>))
                    else Inr None)))"

definition selectDownEntrance :: "point \<Rightarrow> drawingManager \<Rightarrow> drawingManager option" where
  "selectDownEntrance sensorCoords s =
     (case selectedEntranceIndex s of
        None \<Rightarrow> None
      | Some idx \<Rightarrow>
          (case elemAt (entrances s) idx of
             None \<Rightarrow> None
           | Some en \<Rightarrow>
               if isPointInEntrance (fst sensorCoords) (snd sensorCoords) en then
                 Some (s\<lparr>isDragging := True,
                         dragOffset := (fst sensorCoords - itemX en, snd sensorCoords - itemY en),
                         cursor := ''move''\<rparr>)
               else None))"

definition selectDownEdge :: "point \<Rightarrow> point \<Rightarrow> drawingManager \<Rightarrow> drawingManager option" where
  "selectDownEdge canvasCoords sensorCoords s =
     (case selectedEdgeIndex s of
        None \<Rightarrow> None
      | Some idx \<Rightarrow>
          (let eo = elemAt (edges s) idx in
           case getEdgeHandleAtPoint (radar s) (fst canvasCoords) (snd canvasCoords) eo of
             Some h \<Rightarrow>
               Some (s\<lparr>selectedHandle :=
                          Some (h\<lparr>hitemType := Some EdgeItem, hindex := Some idx\<rparr>),
                       isDragging := True, startPoint := Some sensorCoords\<rparr>)
           | None \<Rightarrow>
               (case eo of
                  None \<Rightarrow> None
                | Some e \<Rightarrow>
                    if isPointInEdge (fst sensorCoords) (snd sensorCoords) (Some e) = Inr True then
                      Some (s\<lparr>isDragging := True,
                              dragOffset := centreOffset sensorCoords e,
                              cursor := ''move''\<rparr>)
                    else None)))"

text \<open>
  The four search loops: entrances and furniture from the last index down, zones from
  the first index up, edges from the last index down.  Each selects the first shape
  that contains the pointer; clicking on nothing clears every selection.
\<close>

definition selectDownSearch :: "point \<Rightarrow> drawingManager \<Rightarrow> drawingManager" where
  "selectDownSearch sensorCoords s =
     (let x = fst sensorCoords; y = snd sensorCoords in
      case find (\<lambda>i. isPointInEntrance x y (entrances s ! i)) (rev [0..<length (entrances s)]) of
        Some i \<Rightarrow>
          emit (OnEntranceSelect (Some i))
            ((clearOtherSelections (Some EntranceItem) s)\<lparr>selectedEntranceIndex := Some i\<rparr>)
      | None \<Rightarrow>
     (case find (\<lambda>i. isPointInFurniture x y (Some (furniture s ! i)) = Inr True)
             (rev [0..<length (furniture s)]) of
        Some i \<Rightarrow>
          emit (OnFurnitureSelect (Some i))
            ((clearOtherSelections (Some FurnitureItem) s)\<lparr>selectedFurnitureIndex := Some i\<rparr>)
      | None \<Rightarrow>
     (case find (\<lambda>i. isPointInZone x y (zones s ! i)) [0..<length (zones s)] of
        Some i \<Rightarrow>
          emit (OnZoneSelect (Some i))
            ((clearOtherSelections (Some ZoneItem) s)\<lparr>selectedZoneIndex := Some i\<rparr>)
      | None \<Rightarrow>
     (case find (\<lambda>i. isPointInEdge x y (Some (edges s ! i)) = Inr True)
             (rev [0..<length (edges s)]) of
        Some i \<Rightarrow>
          emit (OnEdgeSelect (Some i))
            ((clearOtherSelections (Some EdgeItem) s)\<lparr>selectedEdgeIndex := Some i\<rparr>)
      | None \<Rightarrow> clearOtherSelections None s))))"

definition handleSelectMouseDown ::
  "point \<Rightarrow> point \<Rightarrow> drawingManager \<Rightarrow> error + drawingManager" where
  "handleSelectMouseDown canvasCoords sensorCoords s =
     (case selectDownFurniture canvasCoords sensorCoords s of
        Inl e \<Rightarrow> Inl e
      | Inr (Some s') \<Rightarrow> Inr s'
      | Inr None \<Rightarrow>
     (case selectDownZone canvasCoords sensorCoords s of
        Inl e \<Rightarrow> Inl e
      | Inr (Some s') \<Rightarrow> Inr s'
      | Inr None \<Rightarrow>
     (case selectDownEntrance sensorCoords s of
        Some s' \<Rightarrow> Inr s'
      | None \<Rightarrow>
     (case selectDownEdge canvasCoords sensorCoords s of
        Some s' \<Rightarrow> Inr s'
      | None \<Rightarrow> Inr (selectDownSearch sensorCoords s)))))"

section \<open>Gestures\<close>

text \<open>
  Shapes are objects that the handlers mutate in place; in the model the changed shape
  is stored back at its index.  \<open>storeAt\<close> is only used with the index the shape was
  read from.
\<close>

definition storeAt :: "'a list \<Rightarrow> nat option \<Rightarrow> 'a \<Rightarrow> 'a list" where
  "storeAt xs io v = (case io of None \<Rightarrow> xs | Some i \<Rightarrow> xs[i := v])"

definition handleRightClickDrag :: "point \<Rightarrow> point \<Rightarrow> drawingManager \<Rightarrow> drawingManager" where
  "handleRightClickDrag canvasCoords sensorCoords s =
     (let x = fst sensorCoords; y = snd sensorCoords;
          zo = atIndex (zones s) (selectedZoneIndex s);
          fo = atIndex (furniture s) (selectedFurnitureIndex s);
          eno = atIndex (entrances s) (selectedEntranceIndex s);
          eo = atIndex (edges s) (selectedEdgeIndex s);
          start = (\<lambda>off. s\<lparr>isRightClickDragging := True, isDragging := True,
                             dragOffset := off, cursor := ''move''\<rparr>)
      in if selectedZoneIndex s \<noteq> None
            \<and> (case zo of None \<Rightarrow> False | Some z \<Rightarrow> enabled z \<and> isPointInZone x y z)
         then start (centreOffset sensorCoords (getZoneCorners (the zo)))
         else if selectedFurnitureIndex s \<noteq> None
            \<and> (case fo of None \<Rightarrow> False | Some f \<Rightarrow> isPointInFurniture x y (Some f) = Inr True)
         then start (x - itemX (the fo), y - itemY (the fo))
         else if selectedEntranceIndex s \<noteq> None
            \<and> (case eno of None \<Rightarrow> False | Some en \<Rightarrow> isPointInEntrance x y en)
         then start (x - itemX (the eno), y - itemY (the eno))
         else if selectedEdgeIndex s \<noteq> None
            \<and> (case eo of None \<Rightarrow> False | Some e \<Rightarrow> isPointInEdge x y (Some e) = Inr True)
         then start (centreOffset sensorCoords (the eo))
         else s)"

definition startMoveMode :: "itemType \<Rightarrow> nat \<Rightarrow> drawingManager \<Rightarrow> error + drawingManager" where
  "startMoveMode itemTy itemIndex s0 =
     (let s = s0\<lparr>isMoving := True, movingItemType := Some itemTy,
                  movingItemIndex := Some itemIndex\<rparr>;
          finish = (\<lambda>t. emit (OnModeChange Moving) (t\<lparr>cursor := ''move''\<rparr>))
      in case itemTy of
           ZoneItem \<Rightarrow>
             (case elemAt (zones s) itemIndex of
                None \<Rightarrow> Inl TypeError
              | Some z \<Rightarrow>
                  (let corners = getZoneCorners z
                   in Inr (finish (s\<lparr>dragOffset := (0, 0),
                                      moveOrigin := Some ((x1 corners + x2 corners) / 2,
                                                          (y1 corners + y2 corners) / 2)\<rparr>))))
         | FurnitureItem \<Rightarrow>
             (case elemAt (furniture s) itemIndex of
                None \<Rightarrow> Inl TypeError
              | Some f \<Rightarrow>
                  Inr (finish (s\<lparr>dragOffset := (0, 0), moveOrigin := Some (itemX f, itemY f)\<rparr>)))
         | EntranceItem \<Rightarrow>
             (case elemAt (entrances s) itemIndex of
                None \<Rightarrow> Inl TypeError
              | Some en \<Rightarrow>
                  Inr (finish (s\<lparr>dragOffset := (0, 0), moveOrigin := Some (itemX en, itemY en)\<rparr>)))
         | EdgeItem \<Rightarrow> Inr (finish s))"

definition finishMoveMode :: "drawingManager \<Rightarrow> drawingManager" where
  "finishMoveMode s =
     (if \<not> isMoving s then s
      else
        (let itemTy = movingItemType s; itemIndex = movingItemIndex s;
             s1 = s\<lparr>isMoving := False, movingItemType := None, movingItemIndex := None,
                    moveOrigin := None, cursor := ''default''\<rparr>;
             s2 = (if itemTy = Some ZoneItem then emit (OnZoneUpdate itemIndex) s1
                   else if itemTy = Some FurnitureItem then emit (OnFurnitureUpdate itemIndex) s1
                   else if itemTy = Some EntranceItem then emit (OnEntranceUpdate itemIndex) s1
                   else s1)
         in emit (OnModeChange Select) s2))"

text \<open>
  \<open>handleRectangleMouseDown\<close>: without a free slot the error is reported and the
  handler returns; otherwise the start corner is recorded.
\<close>

definition handleRectangleMouseDown :: "point \<Rightarrow> drawingManager \<Rightarrow> error + drawingManager" where
  "handleRectangleMouseDown sensorCoords s =
     (case getNextAvailableZoneSlot s of
        Inl e \<Rightarrow> Inl e
      | Inr slot \<Rightarrow>
          if slot = - 1 then Inr (emit (OnError MaximumZones) s)
          else Inr (s\<lparr>isDrawing := True, startPoint := Some sensorCoords,
                       currentPoint := Some sensorCoords\<rparr>))"

definition updateEdgePreview :: "point \<Rightarrow> drawingManager \<Rightarrow> error + drawingManager" where
  "updateEdgePreview sensorCoords s =
     (case startPoint s of
        None \<Rightarrow> Inl TypeError
      | Some sp \<Rightarrow>
          (let p = EdgePreview (Math_round (fst sp / 100) * 100) (Math_round (snd sp / 100) * 100)
                     (Math_round (fst sensorCoords / 100) * 100)
                     (Math_round (snd sensorCoords / 100) * 100)
           in Inr (emit (OnPreviewUpdate (Some p)) (s\<lparr>previewRect := Some p\<rparr>))))"

definition updateRectanglePreview :: "point \<Rightarrow> drawingManager \<Rightarrow> error + drawingManager" where
  "updateRectanglePreview sensorCoords s =
     (case startPoint s of
        None \<Rightarrow> Inl TypeError
      | Some sp \<Rightarrow>
          (let p = RectPreview (fst sp) (snd sp) (fst sensorCoords) (snd sensorCoords)
           in Inr (emit (OnPreviewUpdate (Some p)) (s\<lparr>previewRect := Some p\<rparr>))))"

definition updatePolygonPreview :: "point \<Rightarrow> drawingManager \<Rightarrow> drawingManager" where
  "updatePolygonPreview sensorCoords s =
     (let pv = polygonVertices s @ [sensorCoords]
      in emit (OnPreviewUpdate (Some (PolygonPreview pv))) (s\<lparr>previewPolygon := pv\<rparr>))"

section \<open>Move\<close>

definition moveEdge :: "point \<Rightarrow> drawingManager \<Rightarrow> drawingManager" where
  "moveEdge sensorCoords s =
     (case atIndex (edges s) (selectedEdgeIndex s) of
        None \<Rightarrow> s
      | Some e \<Rightarrow>
          (let w = \<bar>x2 e - x1 e\<bar>; h = \<bar>y2 e - y1 e\<bar>;
               newCenterX = fst sensorCoords - fst (dragOffset s);
               newCenterY = snd sensorCoords - snd (dragOffset s);
               halfW = w / 2; halfH = h / 2;
               newX1 = max (- 3000) (min (3000 - w) (Math_round ((newCenterX - halfW) / 100) * 100));
               newY1 = max 0 (min (6000 - h) (Math_round ((newCenterY - halfH) / 100) * 100));
               e' = e\<lparr>x1 := newX1, y1 := newY1, x2 := newX1 + w, y2 := newY1 + h\<rparr>
           in emit (OnEdgeUpdate (selectedEdgeIndex s))
                (s\<lparr>edges := storeAt (edges s) (selectedEdgeIndex s) e'\<rparr>)))"

definition moveFurniture :: "point \<Rightarrow> drawingManager \<Rightarrow> error + drawingManager" where
  "moveFurniture sensorCoords s =
     (case atIndex (furniture s) (selectedFurnitureIndex s) of
        None \<Rightarrow> Inl TypeError
      | Some f \<Rightarrow>
          (let newX = fst sensorCoords - fst (dragOffset s);
               newY = snd sensorCoords - snd (dragOffset s);
               halfW = width f / 2; halfH = height f / 2;
               f' = f\<lparr>itemX := max (- 3000 + halfW) (min (3000 - halfW) (Math_round (newX / 50) * 50)),
                      itemY := max halfH (min (6000 - halfH) (Math_round (newY / 50) * 50))\<rparr>
           in Inr (emit (OnFurnitureUpdate (selectedFurnitureIndex s))
                     (s\<lparr>furniture := storeAt (furniture s) (selectedFurnitureIndex s) f'\<rparr>))))"

definition moveFurnitureToPosition :: "point \<Rightarrow> drawingManager \<Rightarrow> drawingManager" where
  "moveFurnitureToPosition sensorCoords s =
     (case atIndex (furniture s) (movingItemIndex s) of
        None \<Rightarrow> s
      | Some f \<Rightarrow>
          (let halfW = width f / 2; halfH = height f / 2;
               f' = f\<lparr>itemX := max (- 3000 + halfW)
                                  (min (3000 - halfW) (Math_round (fst sensorCoords / 50) * 50)),
                      itemY := max halfH
                                  (min (6000 - halfH) (Math_round (snd sensorCoords / 50) * 50))\<rparr>
           in s\<lparr>furniture := storeAt (furniture s) (movingItemIndex s) f'\<rparr>))"

definition moveZoneToPosition :: "point \<Rightarrow> drawingManager \<Rightarrow> drawingManager" where
  "moveZoneToPosition sensorCoords s =
     (case atIndex (zones s) (movingItemIndex s) of
        None \<Rightarrow> s
      | Some z \<Rightarrow>
          if \<not> enabled z then s
          else
            (let w = \<bar>x2 z - x1 z\<bar>; h = \<bar>y2 z - y1 z\<bar>;
                 cX = Math_round (fst sensorCoords / 100) * 100;
                 cY = Math_round (snd sensorCoords / 100) * 100;
                 halfW = w / 2; halfH = h / 2;
                 newX1 = max (- 3000) (min (3000 - w) (cX - halfW));
                 newY1 = max 0 (min (6000 - h) (cY - halfH));
                 z' = z\<lparr>x1 := newX1, y1 := newY1, x2 := newX1 + w, y2 := newY1 + h\<rparr>
             in s\<lparr>zones := storeAt (zones s) (movingItemIndex s) z'\<rparr>))"

definition moveEntranceToPosition :: "point \<Rightarrow> drawingManager \<Rightarrow> drawingManager" where
  "moveEntranceToPosition sensorCoords s =
     (case atIndex (entrances s) (movingItemIndex s) of
        None \<Rightarrow> s
      | Some en \<Rightarrow>
          (let en' = en\<lparr>itemX := max (- 3000) (min 3000 (Math_round (fst sensorCoords / 50) * 50)),
                        itemY := max 0 (min 6000 (Math_round (snd sensorCoords / 50) * 50))\<rparr>
           in s\<lparr>entrances := storeAt (entrances s) (movingItemIndex s) en'\<rparr>))"

definition moveEntrance :: "point \<Rightarrow> drawingManager \<Rightarrow> error + drawingManager" where
  "moveEntrance sensorCoords s =
     (case atIndex (entrances s) (selectedEntranceIndex s) of
        None \<Rightarrow> Inl TypeError
      | Some en \<Rightarrow>
          (let newX = fst sensorCoords - fst (dragOffset s);
               newY = snd sensorCoords - snd (dragOffset s);
               en' = en\<lparr>itemX := max (- 3000) (min 3000 (Math_round (newX / 50) * 50)),
                        itemY := max 0 (min 6000 (Math_round (newY / 50) * 50))\<rparr>
           in Inr (emit (OnEntranceUpdate (selectedEntranceIndex s))
                     (s\<lparr>entrances := storeAt (entrances s) (selectedEntranceIndex s) en'\<rparr>))))"

text \<open>
  \<open>moveZone\<close>: the new centre, the corners about it, the clamps that shift the pair
  of corners, and the rounding of each corner to the 100mm grid.  The clamp of one
  axis is the pair of tests \<open>if (new1 < lo) {new1 = lo; new2 = new1 + extent}\<close> and
  \<open>if (new2 > hi) {new2 = hi; new1 = new2 - extent}\<close>, made in this order on the
  corners \<open>(new1, new2)\<close>.
\<close>

definition clampShift :: "real \<Rightarrow> real \<Rightarrow> real \<Rightarrow> real \<times> real \<Rightarrow> real \<times> real" where
  "clampShift lo hi extent new =
     (let a = (if fst new < lo then (lo, lo + extent) else new)
      in if snd a > hi then (hi - extent, hi) else a)"

definition moveZone :: "point \<Rightarrow> drawingManager \<Rightarrow> error + drawingManager" where
  "moveZone sensorCoords s =
     (case atIndex (zones s) (selectedZoneIndex s) of
        None \<Rightarrow> Inl TypeError
      | Some z \<Rightarrow>
          (let corners = getZoneCorners z;
               cX = fst sensorCoords - fst (dragOffset s);
               cY = snd sensorCoords - snd (dragOffset s);
               halfWidth = (x2 corners - x1 corners) / 2;
               halfHeight = (y2 corners - y1 corners) / 2;
               xc = clampShift (- 3000) 3000 (x2 corners - x1 corners)
                      (cX - halfWidth, cX + halfWidth);
               yc = clampShift 0 6000 (y2 corners - y1 corners)
                      (cY - halfHeight, cY + halfHeight);
               z' = z\<lparr>x1 := Math_round (fst xc / 100) * 100,
                      x2 := Math_round (snd xc / 100) * 100,
                      y1 := Math_round (fst yc / 100) * 100,
                      y2 := Math_round (snd yc / 100) * 100\<rparr>
           in Inr (emit (OnZoneUpdate (selectedZoneIndex s))
                     (s\<lparr>zones := storeAt (zones s) (selectedZoneIndex s) z'\<rparr>))))"

section \<open>Resize\<close>

definition setX :: "xField \<Rightarrow> real \<Rightarrow> 'a bbox_scheme \<Rightarrow> 'a bbox_scheme" where
  "setX f v b = (case f of X1 \<Rightarrow> b\<lparr>x1 := v\<rparr> | X2 \<Rightarrow> b\<lparr>x2 := v\<rparr>)"

definition setY :: "yField \<Rightarrow> real \<Rightarrow> 'a bbox_scheme \<Rightarrow> 'a bbox_scheme" where
  "setY f v b = (case f of Y1 \<Rightarrow> b\<lparr>y1 := v\<rparr> | Y2 \<Rightarrow> b\<lparr>y2 := v\<rparr>)"

text \<open>
  The two assignments \<open>zone[handle.updateX] = x\<close> and \<open>zone[handle.updateY] = y\<close>,
  each made only when the handle names a field.
\<close>

definition writeHandleFields :: "handle \<Rightarrow> real \<Rightarrow> real \<Rightarrow> 'a bbox_scheme \<Rightarrow> 'a bbox_scheme" where
  "writeHandleFields h x y b =
     (let b1 = (case updateX h of None \<Rightarrow> b | Some f \<Rightarrow> setX f x b)
      in case updateY h of None \<Rightarrow> b1 | Some f \<Rightarrow> setY f y b1)"

text \<open>
  \<open>resizeZone\<close> has no test that the zone exists: with a handle that names a field the
  assignment to a missing zone throws.
\<close>

definition resizeZone :: "point \<Rightarrow> drawingManager \<Rightarrow> error + drawingManager" where
  "resizeZone sensorCoords s =
     (case selectedHandle s of
        None \<Rightarrow> Inl TypeError
      | Some h \<Rightarrow>
          (let x = max (- 3000) (min 3000 (Math_round (fst sensorCoords / 100) * 100));
               y = max 0 (min 6000 (Math_round (snd sensorCoords / 100) * 100))
           in case atIndex (zones s) (selectedZoneIndex s) of
                None \<Rightarrow>
                  if updateX h \<noteq> None \<or> updateY h \<noteq> None then Inl TypeError
                  else Inr (emit (OnZoneUpdate (selectedZoneIndex s)) s)
              | Some z \<Rightarrow>
                  Inr (emit (OnZoneUpdate (selectedZoneIndex s))
                         (s\<lparr>zones := storeAt (zones s) (selectedZoneIndex s)
                                        (writeHandleFields h x y z)\<rparr>))))"

definition resizeEdge :: "point \<Rightarrow> drawingManager \<Rightarrow> error + drawingManager" where
  "resizeEdge sensorCoords s =
     (case atIndex (edges s) (selectedEdgeIndex s) of
        None \<Rightarrow> Inr s
      | Some e \<Rightarrow>
          (case selectedHandle s of
             None \<Rightarrow> Inl TypeError
           | Some h \<Rightarrow>
               (let x = max (- 3000) (min 3000 (Math_round (fst sensorCoords / 100) * 100));
                    y = max 0 (min 6000 (Math_round (snd sensorCoords / 100) * 100))
                in Inr (emit (OnEdgeUpdate (selectedEdgeIndex s))
                          (s\<lparr>edges := storeAt (edges s) (selectedEdgeIndex s)
                                         (writeHandleFields h x y e)\<rparr>)))))"

text \<open>
  \<open>resizeFurniture\<close>: the four corner cases of the \<open>switch\<close> are the same assignment;
  any other handle type leaves the size, which is then rounded to the 50mm grid.
\<close>

definition resizeFurniture :: "point \<Rightarrow> drawingManager \<Rightarrow> error + drawingManager" where
  "resizeFurniture sensorCoords s =
     (case atIndex (furniture s) (selectedFurnitureIndex s) of
        None \<Rightarrow> Inl TypeError
      | Some f \<Rightarrow>
          (case selectedHandle s of
             None \<Rightarrow> Inl TypeError
           | Some h \<Rightarrow>
               (let dx = fst sensorCoords - itemX f; dy = snd sensorCoords - itemY f;
                    rot = rotation f * pi / 180;
                    localX = dx * cos (- rot) - dy * sin (- rot);
                    localY = dx * sin (- rot) + dy * cos (- rot);
                    minSize = 200;
                    corner = (htype h = H_se \<or> htype h = H_nw \<or> htype h = H_ne \<or> htype h = H_sw);
                    w1 = (if corner then max minSize (\<bar>localX\<bar> * 2) else width f);
                    h1 = (if corner then max minSize (\<bar>localY\<bar> * 2) else height f);
                    f' = f\<lparr>width := Math_round (w1 / 50) * 50,
                           height := Math_round (h1 / 50) * 50\<rparr>
                in Inr (emit (OnFurnitureUpdate (selectedFurnitureIndex s))
                          (s\<lparr>furniture := storeAt (furniture s) (selectedFurnitureIndex s) f'\<rparr>)))))"

section \<open>Pointer move\<close>

definition getHandleCursor :: "handleType \<Rightarrow> string" where
  "getHandleCursor t =
     (case t of
        H_nw \<Rightarrow> ''nwse-resize'' | H_se \<Rightarrow> ''nwse-resize''
      | H_ne \<Rightarrow> ''nesw-resize'' | H_sw \<Rightarrow> ''nesw-resize''
      | H_n \<Rightarrow> ''ns-resize'' | H_s \<Rightarrow> ''ns-resize''
      | H_e \<Rightarrow> ''ew-resize'' | H_w \<Rightarrow> ''ew-resize'')"

text \<open>
  The part of \<open>handleSelectMouseMove\<close> that runs while nothing is dragged: it only
  chooses the cursor, but it reads the selected shapes to do so.
\<close>

definition hoverFurniture ::
  "point \<Rightarrow> point \<Rightarrow> drawingManager \<Rightarrow> error + drawingManager option" where
  "hoverFurniture canvasCoords sensorCoords s =
     (case selectedFurnitureIndex s of
        None \<Rightarrow> Inr None
      | Some idx \<Rightarrow>
          (let fo = elemAt (furniture s) idx in
           case getFurnitureHandleAtPoint (radar s) (fst canvasCoords) (snd canvasCoords) fo of
             Some h \<Rightarrow> Inr (Some (s\<lparr>cursor := getHandleCursor (htype h)\<rparr>))
           | None \<Rightarrow>
               (case isPointInFurniture (fst sensorCoords) (snd sensorCoords) fo of
                  Inl e \<Rightarrow> Inl e
                | Inr inside \<Rightarrow> if inside then Inr (Some (s\<lparr>cursor := ''move''\<rparr>)) else Inr None)))"

definition hoverZone ::
  "point \<Rightarrow> point \<Rightarrow> drawingManager \<Rightarrow> error + drawingManager option" where
  "hoverZone canvasCoords sensorCoords s =
     (case selectedZoneIndex s of
        None \<Rightarrow> Inr None
      | Some idx \<Rightarrow>
          (let zo = elemAt (zones s) idx in
           case getHandleAtPoint (radar s) (fst canvasCoords) (snd canvasCoords) zo (Some idx) of
             Inl e \<Rightarrow> Inl e
           | Inr (Some h) \<Rightarrow> Inr (Some (s\<lparr>cursor := getHandleCursor (htype h)\<rparr>))
           | Inr None \<Rightarrow>
               (case zo of
                  None \<Rightarrow> Inl TypeError
                | Some z \<Rightarrow>
                    if isPointInZone (fst sensorCoords) (snd sensorCoords) z
                    then Inr (Some (s\<lparr>cursor := ''move''\<rparr>)) else Inr None)))"

definition hoverEdge ::
  "point \<Rightarrow> point \<Rightarrow> drawingManager \<Rightarrow> error + drawingManager option" where
  "hoverEdge canvasCoords sensorCoords s =
     (case selectedEdgeIndex s of
        None \<Rightarrow> Inr None
      | Some idx \<Rightarrow>
          (let eo = elemAt (edges s) idx in
           case getEdgeHandleAtPoint (radar s) (fst canvasCoords) (snd canvasCoords) eo of
             Some h \<Rightarrow> Inr (Some (s\<lparr>cursor := getHandleCursor (htype h)\<rparr>))
           | None \<Rightarrow>
               (case isPointInEdge (fst sensorCoords) (snd sensorCoords) eo of
                  Inl e \<Rightarrow> Inl e
                | Inr inside \<Rightarrow> if inside then Inr (Some (s\<lparr>cursor := ''move''\<rparr>)) else Inr None)))"

definition hoverAny :: "point \<Rightarrow> drawingManager \<Rightarrow> drawingManager" where
  "hoverAny sensorCoords s =
     (let x = fst sensorCoords; y = snd sensorCoords
      in if list_ex (\<lambda>f. isPointInFurniture x y (Some f) = Inr True) (furniture s)
           then s\<lparr>cursor := ''pointer''\<rparr>
         else if list_ex (isPointInZone x y) (zones s) then s\<lparr>cursor := ''pointer''\<rparr>
         else s\<lparr>cursor := ''default''\<rparr>)"

definition handleSelectMouseMove ::
  "point \<Rightarrow> point \<Rightarrow> drawingManager \<Rightarrow> error + drawingManager" where
  "handleSelectMouseMove canvasCoords sensorCoords s =
     (if isMoving s then
        (if movingItemType s = Some ZoneItem then Inr (moveZoneToPosition sensorCoords s)
         else if movingItemType s = Some FurnitureItem
           then Inr (moveFurnitureToPosition sensorCoords s)
         else if movingItemType s = Some EntranceItem
           then Inr (moveEntranceToPosition sensorCoords s)
         else Inr s)
      else if \<not> isDragging s then
        (case hoverFurniture canvasCoords sensorCoords s of
           Inl e \<Rightarrow> Inl e
         | Inr (Some s') \<Rightarrow> Inr s'
         | Inr None \<Rightarrow>
        (case hoverZone canvasCoords sensorCoords s of
           Inl e \<Rightarrow> Inl e
         | Inr (Some s') \<Rightarrow> Inr s'
         | Inr None \<Rightarrow>
        (case hoverEdge canvasCoords sensorCoords s of
           Inl e \<Rightarrow> Inl e
         | Inr (Some s') \<Rightarrow> Inr s'
         | Inr None \<Rightarrow> Inr (hoverAny sensorCoords s))))
      else
        (case selectedHandle s of
           Some h \<Rightarrow>
             if hitemType h = Some FurnitureItem then resizeFurniture sensorCoords s
             else if hitemType h = Some EdgeItem then resizeEdge sensorCoords s
             else resizeZone sensorCoords s
         | None \<Rightarrow>
             if selectedEntranceIndex s \<noteq> None then moveEntrance sensorCoords s
             else if selectedFurnitureIndex s \<noteq> None then moveFurniture sensorCoords s
             else if selectedZoneIndex s \<noteq> None then moveZone sensorCoords s
             else if selectedEdgeIndex s \<noteq> None then Inr (moveEdge sensorCoords s)
             else Inr s))"

definition handleMouseMove :: "point \<Rightarrow> drawingManager \<Rightarrow> error + drawingManager" where
  "handleMouseMove canvasCoords s0 =
     (let sensorCoords = toSensorCoords (radar s0) (fst canvasCoords) (snd canvasCoords);
          s = s0\<lparr>currentPoint := Some sensorCoords\<rparr>
      in case mode s of
           Select \<Rightarrow> handleSelectMouseMove canvasCoords sensorCoords s
         | Moving \<Rightarrow> handleSelectMouseMove canvasCoords sensorCoords s
         | DrawRectangle \<Rightarrow> if isDrawing s then updateRectanglePreview sensorCoords s else Inr s
         | DrawPolygon \<Rightarrow>
             if length (polygonVertices s) > 0 then Inr (updatePolygonPreview sensorCoords s)
             else Inr s
         | DrawEdge \<Rightarrow> if isDrawing s then updateEdgePreview sensorCoords s else Inr s
         | PlaceFurniture \<Rightarrow> Inr s
         | PlaceEntrance \<Rightarrow> Inr s)"

section \<open>Creating zones\<close>

text \<open>
  \<open>finishRectangle\<close>: the slot is looked up again; both corners are snapped to the
  100mm grid; a rectangle with a side below 200mm is reported and the gesture reset;
  otherwise the zone in the slot is written with the corners ordered, selected, and the
  mode set back to select.
\<close>

definition finishRectangle :: "point \<Rightarrow> drawingManager \<Rightarrow> error + drawingManager" where
  "finishRectangle sensorCoords s =
     (case getNextAvailableZoneSlot s of
        Inl e \<Rightarrow> Inl e
      | Inr slot \<Rightarrow>
          if slot = - 1 then Inr s
          else
            (case startPoint s of
               None \<Rightarrow> Inl TypeError
             | Some sp \<Rightarrow>
                 (let ax = Math_round (fst sp / 100) * 100;
                      ay = Math_round (snd sp / 100) * 100;
                      bx = Math_round (fst sensorCoords / 100) * 100;
                      by = Math_round (snd sensorCoords / 100) * 100
                  in if \<bar>bx - ax\<bar> < 200 \<or> \<bar>by - ay\<bar> < 200
                     then Inr (resetDrawingState (emit (OnError ZoneTooSmall) s))
                     else
                       (case elemAt (zones s) (nat slot) of
                          None \<Rightarrow> Inl TypeError
                        | Some z \<Rightarrow>
                            (let z' = z\<lparr>enabled := True, shapeType := Rectangle,
                                        x1 := min ax bx, y1 := min ay by,
                                        x2 := max ax bx, y2 := max ay by,
                                        vertices := None,
                                        zoneType := (case zoneType z of
                                                       None \<Rightarrow> Some Detection
                                                     | Some t \<Rightarrow> Some t)\<rparr>;
                                 s1 = resetDrawingState (s\<lparr>zones := (zones s)[nat slot := z']\<rparr>);
                                 s2 = setMode Select (s1\<lparr>selectedZoneIndex := Some (nat slot)\<rparr>)
                             in Inr (emit (OnZoneCreated (nat slot)) s2))))))"

definition finishPolygon :: "drawingManager \<Rightarrow> error + drawingManager" where
  "finishPolygon s =
     (case getNextAvailableZoneSlot s of
        Inl e \<Rightarrow> Inl e
      | Inr slot \<Rightarrow>
          if slot = - 1 then Inr s
          else if length (polygonVertices s) < 3
            then Inr (resetDrawingState (emit (OnError PolygonNeedsVertices) s))
          else
            (case elemAt (zones s) (nat slot) of
               None \<Rightarrow> Inl TypeError
             | Some z \<Rightarrow>
                 (let xs = map fst (polygonVertices s);
                      ys = map snd (polygonVertices s);
                      z' = z\<lparr>enabled := True, shapeType := Polygon,
                             vertices := Some (polygonVertices s),
                             x1 := Min (set xs), y1 := Min (set ys),
                             x2 := Max (set xs), y2 := Max (set ys),
                             zoneType := (case zoneType z of
                                            None \<Rightarrow> Some Detection
                                          | Some t \<Rightarrow> Some t)\<rparr>;
                      s1 = resetDrawingState (s\<lparr>zones := (zones s)[nat slot := z']\<rparr>);
                      s2 = setMode Select (s1\<lparr>selectedZoneIndex := Some (nat slot)\<rparr>)
                  in Inr (emit (OnZoneCreated (nat slot)) s2))))"

definition handleDoubleClick :: "drawingManager \<Rightarrow> error + drawingManager" where
  "handleDoubleClick s =
     (if mode s \<noteq> DrawPolygon then Inr s
      else if length (polygonVertices s) \<ge> 3 then finishPolygon s
      else Inr s)"

definition handlePolygonClick :: "point \<Rightarrow> drawingManager \<Rightarrow> error + drawingManager" where
  "handlePolygonClick sensorCoords s =
     (case getNextAvailableZoneSlot s of
        Inl e \<Rightarrow> Inl e
      | Inr slot \<Rightarrow>
          if slot = - 1 then Inr (emit (OnError MaximumZones) s)
          else
            (let p = (Math_round (fst sensorCoords / 100) * 100,
                      Math_round (snd sensorCoords / 100) * 100);
                 pv = polygonVertices s @ [p]
             in if length (polygonVertices s) \<ge> 3
                   \<and> sqrt ((fst p - fst (polygonVertices s ! 0))\<^sup>2
                           + (snd p - snd (polygonVertices s ! 0))\<^sup>2) < 300
                then finishPolygon s
                else Inr (emit (OnPreviewUpdate (Some (PolygonPreview pv)))
                            (s\<lparr>polygonVertices := pv\<rparr>))))"

section \<open>Placing furniture and entrances\<close>

definition furnitureSizes :: "(string \<times> real \<times> real) list" where
  "furnitureSizes =
     [(''chair'', 700, 700), (''dining-chair'', 450, 450), (''sofa'', 1800, 800),
      (''bed'', 2000, 1500), (''table'', 1200, 800), (''desk'', 1400, 700),
      (''bedside-table'', 500, 500), (''cabinet'', 800, 500), (''drawers'', 800, 500),
      (''wardrobe'', 1200, 600), (''tv'', 1400, 200), (''speaker'', 400, 600),
      (''fridge'', 700, 700), (''radiator'', 1000, 200), (''fan'', 500, 500),
      (''window'', 1200, 200), (''lamp'', 350, 350), (''plant'', 400, 400)]"

definition getFurnitureDefaultSize :: "string \<Rightarrow> real \<times> real" where
  "getFurnitureDefaultSize t =
     (case map_of furnitureSizes t of Some wh \<Rightarrow> wh | None \<Rightarrow> (500, 500))"

text \<open>
  \<open>handleFurniturePlacement\<close>: nothing happens while no furniture type is being
  placed (\<open>null\<close> or the empty string); otherwise the new furniture is pushed.  The
  clock reading \<open>now\<close> stands for \<open>Date.now()\<close>.
\<close>

definition handleFurniturePlacement :: "nat \<Rightarrow> point \<Rightarrow> drawingManager \<Rightarrow> drawingManager" where
  "handleFurniturePlacement now sensorCoords s =
     (case placingFurniture s of
        None \<Rightarrow> s
      | Some t \<Rightarrow>
          if t = [] then s
          else
            (let f = \<lparr>ident = FurnitureId now,
                      itemX = Math_round (fst sensorCoords / 100) * 100,
                      itemY = Math_round (snd sensorCoords / 100) * 100,
                      ftype = t,
                      rotation = mapRotation (radar s),
                      width = fst (getFurnitureDefaultSize t),
                      height = snd (getFurnitureDefaultSize t)\<rparr>
             in emit OnFurniturePlaced (s\<lparr>furniture := furniture s @ [f]\<rparr>)))"

definition handleEntrancePlacement :: "nat \<Rightarrow> point \<Rightarrow> drawingManager \<Rightarrow> drawingManager" where
  "handleEntrancePlacement now sensorCoords s =
     (let en = \<lparr>ident = EntranceId now,
                itemX = Math_round (fst sensorCoords / 100) * 100,
                itemY = Math_round (snd sensorCoords / 100) * 100,
                direction = 0,
                label = Entry (length (entrances s) + 1)\<rparr>
      in emit OnEntrancePlaced (setMode Select (s\<lparr>entrances := entrances s @ [en]\<rparr>)))"

section \<open>Deleting and the keyboard\<close>

definition deleteSelectedFurniture :: "drawingManager \<Rightarrow> drawingManager" where
  "deleteSelectedFurniture s =
     (case selectedFurnitureIndex s of
        None \<Rightarrow> s
      | Some i \<Rightarrow>
          (emit (OnFurnitureDeleted (Some i)) s)
            \<lparr>furniture := splice1 i (furniture s), selectedFurnitureIndex := None\<rparr>)"

definition deleteSelectedEntrance :: "drawingManager \<Rightarrow> drawingManager" where
  "deleteSelectedEntrance s =
     (case selectedEntranceIndex s of
        None \<Rightarrow> s
      | Some i \<Rightarrow>
          (emit (OnEntranceDeleted (Some i)) s)
            \<lparr>entrances := splice1 i (entrances s), selectedEntranceIndex := None\<rparr>)"

definition deleteSelectedZone :: "drawingManager \<Rightarrow> error + drawingManager" where
  "deleteSelectedZone s =
     (case selectedZoneIndex s of
        None \<Rightarrow> Inr s
      | Some i \<Rightarrow>
          (case elemAt (zones s) i of
             None \<Rightarrow> Inl TypeError
           | Some z \<Rightarrow>
               Inr ((emit (OnZoneDeleted (Some i))
                      (s\<lparr>zones := (zones s)[i := z\<lparr>enabled := False, shapeType := Rectangle,
                                                  vertices := None\<rparr>]\<rparr>))
                     \<lparr>selectedZoneIndex := None\<rparr>)))"

definition deleteSelectedEdge :: "drawingManager \<Rightarrow> drawingManager" where
  "deleteSelectedEdge s =
     (case selectedEdgeIndex s of
        None \<Rightarrow> s
      | Some i \<Rightarrow>
          (emit (OnEdgeDeleted (Some i)) s)
            \<lparr>edges := splice1 i (edges s), selectedEdgeIndex := None\<rparr>)"

datatype key = Escape | Delete | Backspace | OtherKey

text \<open>
  \<open>handleKeyDown\<close>: Escape resets the gesture and returns to select mode; Delete and
  Backspace, in select mode, delete the selected entrance, else the selected furniture,
  else the selected zone.
\<close>

definition handleKeyDown :: "key \<Rightarrow> drawingManager \<Rightarrow> error + drawingManager" where
  "handleKeyDown k s0 =
     (let s = (if k = Escape then setMode Select (resetDrawingState s0) else s0)
      in if k = Delete \<or> k = Backspace then
           (if mode s = Select then
              (if selectedEntranceIndex s \<noteq> None then Inr (deleteSelectedEntrance s)
               else if selectedFurnitureIndex s \<noteq> None then Inr (deleteSelectedFurniture s)
               else if selectedZoneIndex s \<noteq> None then deleteSelectedZone s
               else Inr s)
            else Inr s)
         else Inr s)"

definition rotateSelectedEntrance :: "drawingManager \<Rightarrow> error + drawingManager" where
  "rotateSelectedEntrance s =
     (case selectedEntranceIndex s of
        None \<Rightarrow> Inr s
      | Some i \<Rightarrow>
          (case elemAt (entrances s) i of
             None \<Rightarrow> Inl TypeError
           | Some en \<Rightarrow>
               Inr (emit (OnEntranceUpdate (Some i))
                      (s\<lparr>entrances := (entrances s)[i := en\<lparr>direction :=
                                                         js_rem (direction en + 45) 360\<rparr>]\<rparr>))))"

section \<open>Edges\<close>

definition handleEdgeMouseDown :: "point \<Rightarrow> drawingManager \<Rightarrow> drawingManager" where
  "handleEdgeMouseDown sensorCoords s =
     s\<lparr>isDrawing := True, startPoint := Some sensorCoords,
       currentPoint := Some sensorCoords, drawingEdge := True\<rparr>"

text \<open>
  \<open>completeEdgeDrawing\<close>: the corners are the start point and the current point, both
  snapped to the 100mm grid; an edge with a side below 100mm is dropped without a
  report.
\<close>

definition completeEdgeDrawing :: "nat \<Rightarrow> drawingManager \<Rightarrow> drawingManager" where
  "completeEdgeDrawing now s =
     (case (startPoint s, currentPoint s) of
        (Some sp, Some cp) \<Rightarrow>
          (let ax = Math_round (fst sp / 100) * 100;
               ay = Math_round (snd sp / 100) * 100;
               bx = Math_round (fst cp / 100) * 100;
               by = Math_round (snd cp / 100) * 100
           in if \<bar>bx - ax\<bar> < 100 \<or> \<bar>by - ay\<bar> < 100
              then (resetDrawingState s)\<lparr>drawingEdge := False\<rparr>
              else
                (let e = \<lparr>x1 = min ax bx, y1 = min ay by, x2 = max ax bx, y2 = max ay by,
                          edgeId = EdgeId now\<rparr>;
                     s1 = (resetDrawingState (s\<lparr>edges := edges s @ [e]\<rparr>))\<lparr>drawingEdge := False\<rparr>
                 in emit OnEdgePlaced (setMode Select s1)))
      | _ \<Rightarrow> s)"

section \<open>Pointer down and up\<close>

definition handleMouseDown ::
  "nat \<Rightarrow> nat \<Rightarrow> point \<Rightarrow> drawingManager \<Rightarrow> error + drawingManager" where
  "handleMouseDown now button canvasCoords s =
     (let sensorCoords = toSensorCoords (radar s) (fst canvasCoords) (snd canvasCoords)
      in if button = 2 then Inr (handleRightClickDrag canvasCoords sensorCoords s)
         else
           (case mode s of
              Select \<Rightarrow>
                if isMoving s then Inr (finishMoveMode s)
                else handleSelectMouseDown canvasCoords sensorCoords s
            | Moving \<Rightarrow>
                if isMoving s then Inr (finishMoveMode s)
                else handleSelectMouseDown canvasCoords sensorCoords s
            | DrawRectangle \<Rightarrow> handleRectangleMouseDown sensorCoords s
            | DrawPolygon \<Rightarrow> handlePolygonClick sensorCoords s
            | PlaceFurniture \<Rightarrow> Inr (handleFurniturePlacement now sensorCoords s)
            | PlaceEntrance \<Rightarrow> Inr (handleEntrancePlacement now sensorCoords s)
            | DrawEdge \<Rightarrow> Inr (handleEdgeMouseDown sensorCoords s)))"

definition handleMouseUp ::
  "nat \<Rightarrow> nat \<Rightarrow> point \<Rightarrow> drawingManager \<Rightarrow> error + drawingManager" where
  "handleMouseUp now button canvasCoords s =
     (let sensorCoords = toSensorCoords (radar s) (fst canvasCoords) (snd canvasCoords)
      in if button = 2 \<and> isRightClickDragging s then
           (let s1 = s\<lparr>isRightClickDragging := False, isDragging := False,
                       cursor := ''default''\<rparr>
            in if selectedEdgeIndex s1 \<noteq> None
               then Inr (emit (OnEdgeUpdate (selectedEdgeIndex s1)) s1) else Inr s1)
         else
           (case mode s of
              Select \<Rightarrow>
                Inr (s\<lparr>isDragging := False, isRightClickDragging := False,
                       selectedHandle := None\<rparr>)
            | DrawRectangle \<Rightarrow> if isDrawing s then finishRectangle sensorCoords s else Inr s
            | DrawEdge \<Rightarrow> if isDrawing s then Inr (completeEdgeDrawing now s) else Inr s
            | DrawPolygon \<Rightarrow> Inr s
            | PlaceFurniture \<Rightarrow> Inr s
            | PlaceEntrance \<Rightarrow> Inr s
            | Moving \<Rightarrow> Inr s))"

section \<open>Events\<close>

text \<open>
  The listeners that \<open>bindEvents\<close> attaches: an event is dispatched to its handler.
  Pointer events carry the button and the position in canvas pixels, a pointer-down
  also the clock reading.  A sequence of events stops at the first exception.
\<close>

datatype domEvent =
  MouseDown nat nat point
  | MouseMove point
  | MouseUp nat nat point
  | DoubleClick
  | KeyDown key

fun dispatch :: "domEvent \<Rightarrow> drawingManager \<Rightarrow> error + drawingManager" where
  "dispatch (MouseDown now button canvasCoords) s = handleMouseDown now button canvasCoords s"
| "dispatch (MouseMove canvasCoords) s = handleMouseMove canvasCoords s"
| "dispatch (MouseUp now button canvasCoords) s = handleMouseUp now button canvasCoords s"
| "dispatch DoubleClick s = handleDoubleClick s"
| "dispatch (KeyDown k) s = handleKeyDown k s"

fun run :: "domEvent list \<Rightarrow> drawingManager \<Rightarrow> error + drawingManager" where
  "run [] s = Inr s"
| "run (ev # rest) s = (case dispatch ev s of Inl e \<Rightarrow> Inl e | Inr s' \<Rightarrow> run rest s')"

section \<open>Initial state\<close>

text \<open>
  A zone slot as the host creates it, and the DrawingManager as its constructor leaves
  it, over a given canvas and zone slots and with empty annotation lists.
\<close>

definition defaultZone :: zone where
  "defaultZone =
     \<lparr>x1 = - 1500, y1 = 0, x2 = 1500, y2 = 3000,
      enabled = False, shapeType = Rectangle, vertices = None, zoneType = Some Detection\<rparr>"

definition newDrawingManager :: "radarCanvas \<Rightarrow> zone list \<Rightarrow> drawingManager" where
  "newDrawingManager c zs =
     \<lparr>radar = c, zones = zs, furniture = [], entrances = [], edges = [],
      placingFurniture = None, mode = Select,
      isDrawing = False, isDragging = False, isMoving = False, isRightClickDragging = False,
      movingItemType = None, movingItemIndex = None, moveOrigin = None,
      startPoint = None, currentPoint = None, polygonVertices = [],
      selectedZoneIndex = None, selectedFurnitureIndex = None,
      selectedEntranceIndex = None, selectedEdgeIndex = None,
      selectedHandle = None, dragOffset = (0, 0),
      previewRect = None, previewPolygon = [], drawingEdge = False,
      cursor = ''default'', events = []\<rparr>"

section \<open>Scenarios\<close>

text \<open>
  Concrete canvases and registries on which the handlers are run below: a 600 pixel
  canvas unrotated and rotated by a quarter turn, a zone that is in use, a registry of
  three free slots, and registries of five slots that are all in use or in use except
  for the fourth.
\<close>

definition canvas0 :: radarCanvas where
  "canvas0 = newRadarCanvas 600 0"

definition canvas90 :: radarCanvas where
  "canvas90 = newRadarCanvas 600 90"

definition usedZone :: zone where
  "usedZone = defaultZone\<lparr>enabled := True\<rparr>"

definition threeFree :: drawingManager where
  "threeFree = newDrawingManager canvas0 [defaultZone, defaultZone, defaultZone]"

definition fiveUsed :: drawingManager where
  "fiveUsed = newDrawingManager canvas0 [usedZone, usedZone, usedZone, usedZone, usedZone]"

definition fourthFree :: drawingManager where
  "fourthFree =
     newDrawingManager canvas0 [usedZone, usedZone, usedZone, defaultZone, usedZone]"

text \<open>The state after a sequence of events; the state itself if an event throws.\<close>

definition stateAfter :: "domEvent list \<Rightarrow> drawingManager \<Rightarrow> drawingManager" where
  "stateAfter evs s = (case run evs s of Inl e \<Rightarrow> s | Inr s' \<Rightarrow> s')"

text \<open>
  On the unrotated 600 pixel canvas the sensor point \<open>(x, y)\<close> is the pixel
  \<open>(300 + x / 10, 600 - y / 10)\<close>.  The gesture \<open>drawSquare\<close> presses at the sensor
  origin, drags to (1000, 1000) and releases there; \<open>grabWest\<close> and \<open>grabEast\<close> press
  on the middle of the left and of the right side of that square.
\<close>

definition drawSquare :: "domEvent list" where
  "drawSquare = [MouseDown 1 0 (300, 600), MouseMove (400, 500), MouseUp 1 0 (400, 500)]"

definition grabWest :: "domEvent list" where
  "grabWest = [MouseDown 3 0 (300, 550)]"


definition rectangleTool :: drawingManager where
  "rectangleTool = setMode DrawRectangle threeFree"

definition drawingFromOrigin :: drawingManager where
  "drawingFromOrigin = stateAfter [MouseDown 1 0 (300, 600)] rectangleTool"

definition squareDrawn :: drawingManager where
  "squareDrawn = stateAfter drawSquare rectangleTool"

text \<open>A second rectangle started at (-2000, 0) once the square is there.\<close>

definition secondRectangle :: drawingManager where
  "secondRectangle = stateAfter [MouseDown 4 0 (100, 600)] (setMode DrawRectangle squareDrawn)"

definition edgeTool :: drawingManager where
  "edgeTool = setMode DrawEdge threeFree"

definition edgeDrawn :: drawingManager where
  "edgeDrawn = stateAfter drawSquare edgeTool"

definition edgeSelected :: drawingManager where
  "edgeSelected = stateAfter [MouseDown 2 0 (350, 550), MouseUp 2 0 (350, 550)] edgeDrawn"



text \<open>
  The host sets \<open>placingFurniture\<close> when a furniture tool is chosen.  A chair is placed
  at (0, 3000) and then selected by a click on it.  In \<open>staleChair\<close> the list of
  furniture has since been emptied by the host, while the selection index remains.
\<close>

definition chairTool :: drawingManager where
  "chairTool = (setMode PlaceFurniture threeFree)\<lparr>placingFurniture := Some ''chair''\<rparr>"

definition entranceTool :: drawingManager where
  "entranceTool = setMode PlaceEntrance threeFree"

definition chairPlaced :: drawingManager where
  "chairPlaced = setMode Select (stateAfter [MouseDown 1 0 (300, 300)] chairTool)"

definition chairSelected :: drawingManager where
  "chairSelected = stateAfter [MouseDown 2 0 (300, 300), MouseUp 2 0 (300, 300)] chairPlaced"

definition staleChair :: drawingManager where
  "staleChair = chairSelected\<lparr>furniture := []\<rparr>"

text \<open>
  The states the gestures above end in: the left side of the square dragged to
  x = 2000, its right side dragged to x = 100 (to x = 0 for the edge), the closed
  triangle, a placement at the pointer position (40, 40), an edge being drawn, and a
  square drawn while the chair is selected.
\<close>

definition zoneDraggedWest :: drawingManager where
  "zoneDraggedWest = stateAfter (grabWest @ [MouseMove (500, 550)]) squareDrawn"

definition edgeDraggedWest :: drawingManager where
  "edgeDraggedWest = stateAfter (grabWest @ [MouseMove (500, 550)]) edgeSelected"

text \<open>
  After that drag the zone shows as the box from x = 1000 to x = 2000.  The button is
  released, the handle on the left side of the box as shown, at (1000, 500), is
  pressed and dragged to x = 500.
\<close>

definition zoneRegrabbed :: drawingManager where
  "zoneRegrabbed =
     stateAfter [MouseUp 3 0 (500, 550), MouseDown 4 0 (400, 550), MouseMove (350, 550)]
       zoneDraggedWest"




definition chairAt40 :: drawingManager where
  "chairAt40 = stateAfter [MouseDown 1 0 (304, 596)] chairTool"

definition entranceAt40 :: drawingManager where
  "entranceAt40 = stateAfter [MouseDown 1 0 (304, 596)] entranceTool"


definition twoSelected :: drawingManager where
  "twoSelected = stateAfter drawSquare (setMode DrawRectangle chairSelected)"

section \<open>Predicates of the properties\<close>

text \<open>A bounding box is normalized when its first corner is the lower one.\<close>

definition normalized :: "'a bbox_scheme \<Rightarrow> bool" where
  "normalized b \<longleftrightarrow> x1 b \<le> x2 b \<and> y1 b \<le> y2 b"

text \<open>Every enabled zone and every edge of the registry is normalized.\<close>

definition allNormalized :: "drawingManager \<Rightarrow> bool" where
  "allNormalized s \<longleftrightarrow>
     list_all (\<lambda>z. enabled z \<longrightarrow> normalized z) (zones s) \<and> list_all normalized (edges s)"



text \<open>The number of selection indices that are set, and the single-selection property.\<close>

definition selectionCount :: "drawingManager \<Rightarrow> nat" where
  "selectionCount s =
     (if selectedZoneIndex s \<noteq> None then 1 else 0)
     + (if selectedFurnitureIndex s \<noteq> None then 1 else 0)
     + (if selectedEntranceIndex s \<noteq> None then 1 else 0)
     + (if selectedEdgeIndex s \<noteq> None then 1 else 0)"

definition atMostOneSelected :: "drawingManager \<Rightarrow> bool" where
  "atMostOneSelected s \<longleftrightarrow> selectionCount s \<le> 1"

text \<open>The nearest multiple of the grid size \<open>g\<close>, a half going up.\<close>

definition snapTo :: "real \<Rightarrow> real \<Rightarrow> real" where
  "snapTo g v = Math_round (v / g) * g"

section \<open>The coordinate transforms\<close>

lemma rot_inv:
  fixes c s dx dy :: real
  assumes "c * c + s * s = 1"
  shows "(dx * c - dy * s) * c + (dx * s + dy * c) * s = dx"
    and "(dx * s + dy * c) * c - (dx * c - dy * s) * s = dy"
proof -
  have "(dx * c - dy * s) * c + (dx * s + dy * c) * s = dx * (c * c + s * s)"
    by (simp add: algebra_simps)
  then show "(dx * c - dy * s) * c + (dx * s + dy * c) * s = dx"
    using assms by simp
  have "(dx * s + dy * c) * c - (dx * c - dy * s) * s = dy * (c * c + s * s)"
    by (simp add: algebra_simps)
  then show "(dx * s + dy * c) * c - (dx * c - dy * s) * s = dy"
    using assms by simp
qed

lemma cos_sin_unit: "cos (a::real) * cos a + sin a * sin a = 1"
  using sin_cos_squared_add2 [of a] by (simp add: power2_eq_square)

lemma toCanvasCoords_eq:
  "toCanvasCoords c x y =
     (canvasWidth c / 2
        + (toCanvasX c x - canvasWidth c / 2) * cos (mapRotation c * pi / 180)
        - (toCanvasY c y - canvasHeight c / 2) * sin (mapRotation c * pi / 180),
      canvasHeight c / 2
        + (toCanvasX c x - canvasWidth c / 2) * sin (mapRotation c * pi / 180)
        + (toCanvasY c y - canvasHeight c / 2) * cos (mapRotation c * pi / 180))"
  by (simp add: toCanvasCoords_def Let_def)

lemma toSensorCoords_eq:
  "toSensorCoords c u v =
     (toSensorX c (canvasWidth c / 2
        + (u - canvasWidth c / 2) * cos (mapRotation c * pi / 180)
        + (v - canvasHeight c / 2) * sin (mapRotation c * pi / 180)),
      toSensorY c (canvasHeight c / 2
        - (u - canvasWidth c / 2) * sin (mapRotation c * pi / 180)
        + (v - canvasHeight c / 2) * cos (mapRotation c * pi / 180)))"
proof -
  have "- mapRotation c * pi / 180 = - (mapRotation c * pi / 180)"
    by simp
  then show ?thesis
    unfolding toSensorCoords_def Let_def by (simp only: cos_minus sin_minus) simp
qed

lemma toSensorCoords_toCanvasCoords_any:
  assumes "scaleX c \<noteq> 0" and "scaleY c \<noteq> 0"
  shows "toSensorCoords c (fst (toCanvasCoords c x y)) (snd (toCanvasCoords c x y)) = (x, y)"
proof -
  define C where "C = cos (mapRotation c * pi / 180)"
  define S where "S = sin (mapRotation c * pi / 180)"
  define dx where "dx = toCanvasX c x - canvasWidth c / 2"
  define dy where "dy = toCanvasY c y - canvasHeight c / 2"
  have unit: "C * C + S * S = 1"
    by (simp add: C_def S_def cos_sin_unit)
  have sx: "toSensorX c (toCanvasX c x) = x"
    using assms(1) by (simp add: toSensorX_def toCanvasX_def)
  have sy: "toSensorY c (toCanvasY c y) = y"
    using assms(2) by (simp add: toSensorY_def toCanvasY_def)
  have ux: "canvasWidth c / 2 + (dx * C - dy * S) * C + (dx * S + dy * C) * S = toCanvasX c x"
    using rot_inv(1) [OF unit, of dx dy] by (simp add: dx_def)
  have uy: "canvasHeight c / 2 - (dx * C - dy * S) * S + (dx * S + dy * C) * C = toCanvasY c y"
    using rot_inv(2) [OF unit, of dx dy] by (simp add: dy_def)
  have "toSensorCoords c (fst (toCanvasCoords c x y)) (snd (toCanvasCoords c x y))
      = (toSensorX c (canvasWidth c / 2 + (dx * C - dy * S) * C + (dx * S + dy * C) * S),
         toSensorY c (canvasHeight c / 2 - (dx * C - dy * S) * S + (dx * S + dy * C) * C))"
    by (simp add: toSensorCoords_eq toCanvasCoords_eq C_def S_def dx_def dy_def)
  then show ?thesis
    by (simp only: ux uy sx sy)
qed

lemma toCanvasCoords_toSensorCoords_any:
  assumes "scaleX c \<noteq> 0" and "scaleY c \<noteq> 0"
  shows "toCanvasCoords c (fst (toSensorCoords c u v)) (snd (toSensorCoords c u v)) = (u, v)"
proof -
  define C where "C = cos (mapRotation c * pi / 180)"
  define S where "S = - sin (mapRotation c * pi / 180)"
  define dx where "dx = u - canvasWidth c / 2"
  define dy where "dy = v - canvasHeight c / 2"
  have unit: "C * C + S * S = 1"
    by (simp add: C_def S_def cos_sin_unit)
  have cxs: "toCanvasX c (toSensorX c w) = w" for w
    using assms(1) by (simp add: toSensorX_def toCanvasX_def)
  have cys: "toCanvasY c (toSensorY c w) = w" for w
    using assms(2) by (simp add: toSensorY_def toCanvasY_def)
  have ux: "canvasWidth c / 2 + (dx * C - dy * S) * C + (dx * S + dy * C) * S = u"
    using rot_inv(1) [OF unit, of dx dy] by (simp add: dx_def)
  have uy: "canvasHeight c / 2 - (dx * C - dy * S) * S + (dx * S + dy * C) * C = v"
    using rot_inv(2) [OF unit, of dx dy] by (simp add: dy_def)
  have "toCanvasCoords c (fst (toSensorCoords c u v)) (snd (toSensorCoords c u v))
      = (canvasWidth c / 2 + (dx * C - dy * S) * C + (dx * S + dy * C) * S,
         canvasHeight c / 2 - (dx * C - dy * S) * S + (dx * S + dy * C) * C)"
    by (simp add: toSensorCoords_eq toCanvasCoords_eq cxs cys C_def S_def dx_def dy_def)
  then show ?thesis
    by (simp only: ux uy)
qed

section \<open>Zone slots and capacity\<close>

lemma canvas0_eq:
  "canvas0 = \<lparr>canvasWidth = 600, canvasHeight = 600, centerX = 300, centerY = 600,
               scaleX = 1 / 10, scaleY = 1 / 10, mapRotation = 0\<rparr>"
  by (simp add: canvas0_def newRadarCanvas_def resize_def setMapRotation_def js_rem_def
      X_MAX_def X_MIN_def Y_MAX_def Y_MIN_def)

lemma canvas90_eq:
  "canvas90 = \<lparr>canvasWidth = 600, canvasHeight = 600, centerX = 300, centerY = 600,
                scaleX = 1 / 10, scaleY = 1 / 10, mapRotation = 90\<rparr>"
  by (simp add: canvas90_def newRadarCanvas_def resize_def setMapRotation_def js_rem_def
      X_MAX_def X_MIN_def Y_MAX_def Y_MIN_def)

lemma elemAt_in: "i < length xs \<Longrightarrow> elemAt xs i = Some (xs ! i)"
  by (simp add: elemAt_def)

lemma elemAt_out: "\<not> i < length xs \<Longrightarrow> elemAt xs i = None"
  by (simp add: elemAt_def)

lemma elemAt_Some: "elemAt xs i = Some v \<longleftrightarrow> i < length xs \<and> xs ! i = v"
  by (auto simp add: elemAt_def)

lemma firstFreeSlot_three:
  assumes "3 \<le> length zs"
  shows "firstFreeSlot zs [0, 1, 2] =
           Inr (if \<not> enabled (zs ! 0) then 0 else if \<not> enabled (zs ! 1) then 1
                else if \<not> enabled (zs ! 2) then 2 else - 1)"
proof -
  from assms have "0 < length zs" and "Suc 0 < length zs" and "2 < length zs"
    by linarith+
  then have "elemAt zs 0 = Some (zs ! 0)" and "elemAt zs (Suc 0) = Some (zs ! Suc 0)"
    and "elemAt zs 2 = Some (zs ! 2)"
    by (simp_all only: elemAt_in)
  then show ?thesis
    by simp
qed

lemma getNextAvailableZoneSlot_full:
  assumes "3 \<le> length (zones s)"
    and "enabled (zones s ! 0)" and "enabled (zones s ! 1)" and "enabled (zones s ! 2)"
  shows "getNextAvailableZoneSlot s = Inr (- 1)"
  unfolding getNextAvailableZoneSlot_def firstFreeSlot_three [OF assms(1)]
  using assms(2-) by simp

lemma getNextAvailableZoneSlot_range:
  assumes "getNextAvailableZoneSlot s = Inr slot" and "slot \<noteq> - 1"
  shows "0 \<le> slot \<and> nat slot < length (zones s) \<and> nat slot < 3
           \<and> \<not> enabled (zones s ! nat slot)"
  using assms
  by (auto simp add: getNextAvailableZoneSlot_def elemAt_def split: if_splits)

text \<open>
  C1 (as amended).  Zone creation scans the slots 0, 1 and 2 in order for the first one
  that is not enabled.  When these three are all in use, starting a rectangle reports
  the capacity error and changes nothing but the event log; so it does whenever every
  zone of the registry is enabled.
\<close>

theorem C1_zone_slot_scan:
  assumes "3 \<le> length (zones s)"
  shows "getNextAvailableZoneSlot s =
           Inr (if \<not> enabled (zones s ! 0) then 0 else if \<not> enabled (zones s ! 1) then 1
                else if \<not> enabled (zones s ! 2) then 2 else - 1)
         \<and> (enabled (zones s ! 0) \<and> enabled (zones s ! 1) \<and> enabled (zones s ! 2) \<longrightarrow>
              handleRectangleMouseDown p s = Inr (s\<lparr>events := events s @ [OnError MaximumZones]\<rparr>))
         \<and> (list_all enabled (zones s) \<longrightarrow>
              handleRectangleMouseDown p s = Inr (s\<lparr>events := events s @ [OnError MaximumZones]\<rparr>))"
proof -
  have scan: "getNextAvailableZoneSlot s =
           Inr (if \<not> enabled (zones s ! 0) then 0 else if \<not> enabled (zones s ! 1) then 1
                else if \<not> enabled (zones s ! 2) then 2 else - 1)"
    by (simp only: getNextAvailableZoneSlot_def firstFreeSlot_three [OF assms])
  have full: "handleRectangleMouseDown p s = Inr (s\<lparr>events := events s @ [OnError MaximumZones]\<rparr>)"
    if "enabled (zones s ! 0)" and "enabled (zones s ! 1)" and "enabled (zones s ! 2)"
    using getNextAvailableZoneSlot_full [OF assms that]
    by (simp add: handleRectangleMouseDown_def emit_def)
  from assms have "0 < length (zones s)" and "1 < length (zones s)" and "2 < length (zones s)"
    by linarith+
  then have "enabled (zones s ! 0) \<and> enabled (zones s ! 1) \<and> enabled (zones s ! 2)"
    if "list_all enabled (zones s)"
    using that unfolding list_all_length by blast
  with scan full show ?thesis
    by blast
qed

theorem C1_zone_slot_scan_witness:
  "3 \<le> length (zones fiveUsed) \<and> list_all enabled (zones fiveUsed)
   \<and> getNextAvailableZoneSlot fiveUsed = Inr (- 1)
   \<and> handleRectangleMouseDown (0, 0) fiveUsed = Inr (fiveUsed\<lparr>events := [OnError MaximumZones]\<rparr>)"
proof -
  have len: "3 \<le> length (zones fiveUsed)"
    by (simp add: fiveUsed_def newDrawingManager_def)
  have all: "list_all enabled (zones fiveUsed)"
    by (simp add: fiveUsed_def newDrawingManager_def usedZone_def)
  have en: "enabled (zones fiveUsed ! 0)" "enabled (zones fiveUsed ! 1)" "enabled (zones fiveUsed ! 2)"
    by (simp_all add: fiveUsed_def newDrawingManager_def usedZone_def)
  have ev: "events fiveUsed = []"
    by (simp add: fiveUsed_def newDrawingManager_def)
  from C1_zone_slot_scan [OF len, of "(0, 0)"] all en ev len show ?thesis
    by simp
qed

text \<open>
  The scan does not reach the fourth and fifth slot: with the first three zones in use
  and the fourth free, no slot is found and the capacity error is reported.
\<close>

theorem C1_counterexample:
  "length (zones fourthFree) = 5 \<and> \<not> enabled (zones fourthFree ! 3)
   \<and> getNextAvailableZoneSlot fourthFree = Inr (- 1)
   \<and> handleRectangleMouseDown (0, 0) fourthFree
       = Inr (fourthFree\<lparr>events := [OnError MaximumZones]\<rparr>)"
  by (simp add: fourthFree_def newDrawingManager_def usedZone_def defaultZone_def
      getNextAvailableZoneSlot_def handleRectangleMouseDown_def elemAt_def emit_def)

section \<open>Round trip of the coordinate transforms\<close>

text \<open>
  C2.  For a canvas with non-zero scale and a rotation of 0, 90, 180 or 270 degrees, the
  pointer-to-sensor conversion and the sensor-to-canvas conversion are inverse to one
  another, in both directions.  Numbers are real, so the equality is exact.
\<close>

theorem C2_round_trip:
  assumes "scaleX c \<noteq> 0" and "scaleY c \<noteq> 0"
    and "mapRotation c \<in> {0, 90, 180, 270}"
  shows "toSensorCoords c (fst (toCanvasCoords c x y)) (snd (toCanvasCoords c x y)) = (x, y)
         \<and> toCanvasCoords c (fst (toSensorCoords c u v)) (snd (toSensorCoords c u v)) = (u, v)"
  using toSensorCoords_toCanvasCoords_any [OF assms(1,2)]
    toCanvasCoords_toSensorCoords_any [OF assms(1,2)]
  by simp

theorem C2_round_trip_witness:
  "scaleX canvas90 \<noteq> 0 \<and> scaleY canvas90 \<noteq> 0 \<and> mapRotation canvas90 \<in> {0, 90, 180, 270}
   \<and> toCanvasCoords canvas90 1000 2000 = (200, 400)
   \<and> toSensorCoords canvas90 200 400 = (1000, 2000)"
proof -
  have sc: "scaleX canvas90 \<noteq> 0" "scaleY canvas90 \<noteq> 0"
    by (simp_all add: canvas90_eq)
  have rot: "mapRotation canvas90 \<in> {0, 90, 180, 270}"
    by (simp add: canvas90_eq)
  have fwd: "toCanvasCoords canvas90 1000 2000 = (200, 400)"
    by (simp add: canvas90_eq toCanvasCoords_def toCanvasX_def toCanvasY_def Let_def)
  from C2_round_trip [OF sc rot, of 1000 2000] fwd sc rot show ?thesis
    by simp
qed

section \<open>The target remap against the rotation of the view\<close>

lemma newRadarCanvas_fields:
  assumes "rot \<in> {0, 90, 180, 270}"
  shows "newRadarCanvas sz rot =
           \<lparr>canvasWidth = sz, canvasHeight = sz, centerX = sz / 2, centerY = sz,
            scaleX = sz / 6000, scaleY = sz / 6000, mapRotation = rot\<rparr>"
  using assms
  by (auto simp add: newRadarCanvas_def resize_def setMapRotation_def js_rem_def
      X_MAX_def X_MIN_def Y_MAX_def Y_MIN_def)

lemma sin_270: "sin (270 * pi / 180 :: real) = - 1"
  using sin_3over2_pi by (simp add: field_simps)

lemma cos_270: "cos (270 * pi / 180 :: real) = 0"
  using cos_3over2_pi by (simp add: field_simps)

lemma sin_three_halves_pi: "sin (pi * 3 / 2 :: real) = - 1"
  using sin_270 by (simp add: field_simps)

lemma cos_three_halves_pi: "cos (pi * 3 / 2 :: real) = 0"
  using cos_270 by (simp add: field_simps)

text \<open>
  Unrotated, the remap of a target and the transform of zones give the same pixel.  At
  a quarter, half and three-quarter turn the remap gives the pixel that the rotation of
  the view gives to the point mirrored in the axis of the sensor.
\<close>

lemma drawTarget_unrotated:
  "drawTarget (newRadarCanvas sz 0) (x, y) = toCanvasCoords (newRadarCanvas sz 0) x y"
  by (simp add: newRadarCanvas_fields drawTarget_def transformSensorToRoom_def
      toCanvasCoords_def toCanvasX_def toCanvasY_def Let_def)

lemma drawTarget_mirrored:
  assumes "rot \<in> {90, 180, 270}"
  shows "drawTarget (newRadarCanvas sz rot) (x, y) = toCanvasCoords (newRadarCanvas sz rot) (- x) y"
proof -
  from assms consider "rot = 90" | "rot = 180" | "rot = 270"
    by auto
  then show ?thesis
  proof cases
    case 1
    then show ?thesis
      by (simp add: newRadarCanvas_fields drawTarget_def transformSensorToRoom_def toCanvasCoords_def
          toCanvasX_def toCanvasY_def Let_def Y_MAX_def field_simps)
  next
    case 2
    then show ?thesis
      by (simp add: newRadarCanvas_fields drawTarget_def transformSensorToRoom_def toCanvasCoords_def
          toCanvasX_def toCanvasY_def Let_def Y_MAX_def field_simps)
  next
    case 3
    then show ?thesis
      by (simp add: newRadarCanvas_fields drawTarget_def transformSensorToRoom_def toCanvasCoords_def
          toCanvasX_def toCanvasY_def Let_def Y_MAX_def sin_270 cos_270
          sin_three_halves_pi cos_three_halves_pi field_simps)
  qed
qed

text \<open>
  C3.  On a 600 pixel canvas rotated by 90 degrees the target at (1000, 2000) is drawn
  at the pixel (200, 200), while the transform used for zones, furniture and
  hit-testing puts the same sensor point at (200, 400).
\<close>

theorem C3_remap_differs_from_rotation:
  "drawTarget canvas90 (1000, 2000) = (200, 200)
   \<and> toCanvasCoords canvas90 1000 2000 = (200, 400)"
  by (simp add: canvas90_eq drawTarget_def transformSensorToRoom_def toCanvasCoords_def
      toCanvasX_def toCanvasY_def Let_def)

section \<open>Fields that the bookkeeping functions leave alone\<close>

lemma emit_fields [simp]:
  "zones (emit ev s) = zones s" "edges (emit ev s) = edges s"
  "furniture (emit ev s) = furniture s" "entrances (emit ev s) = entrances s"
  "selectedZoneIndex (emit ev s) = selectedZoneIndex s"
  "selectedFurnitureIndex (emit ev s) = selectedFurnitureIndex s"
  "selectedEntranceIndex (emit ev s) = selectedEntranceIndex s"
  "selectedEdgeIndex (emit ev s) = selectedEdgeIndex s"
  "mode (emit ev s) = mode s" "isDrawing (emit ev s) = isDrawing s"
  "startPoint (emit ev s) = startPoint s"
  "events (emit ev s) = events s @ [ev]"
  by (simp_all add: emit_def)

lemma resetDrawingState_fields [simp]:
  "zones (resetDrawingState s) = zones s" "edges (resetDrawingState s) = edges s"
  "furniture (resetDrawingState s) = furniture s" "entrances (resetDrawingState s) = entrances s"
  "selectedZoneIndex (resetDrawingState s) = selectedZoneIndex s"
  "selectedFurnitureIndex (resetDrawingState s) = selectedFurnitureIndex s"
  "selectedEntranceIndex (resetDrawingState s) = selectedEntranceIndex s"
  "selectedEdgeIndex (resetDrawingState s) = selectedEdgeIndex s"
  "mode (resetDrawingState s) = mode s" "isDrawing (resetDrawingState s) = False"
  "startPoint (resetDrawingState s) = None"
  "events (resetDrawingState s) = events s @ [OnPreviewUpdate None]"
  by (simp_all add: resetDrawingState_def)

lemma updateCursor_fields [simp]:
  "zones (updateCursor s) = zones s" "edges (updateCursor s) = edges s"
  "furniture (updateCursor s) = furniture s" "entrances (updateCursor s) = entrances s"
  "selectedZoneIndex (updateCursor s) = selectedZoneIndex s"
  "selectedFurnitureIndex (updateCursor s) = selectedFurnitureIndex s"
  "selectedEntranceIndex (updateCursor s) = selectedEntranceIndex s"
  "selectedEdgeIndex (updateCursor s) = selectedEdgeIndex s"
  "mode (updateCursor s) = mode s" "isDrawing (updateCursor s) = isDrawing s"
  "startPoint (updateCursor s) = startPoint s"
  "events (updateCursor s) = events s"
  by (simp_all add: updateCursor_def split: mode.splits)

lemma setMode_fields [simp]:
  "zones (setMode m s) = zones s" "edges (setMode m s) = edges s"
  "furniture (setMode m s) = furniture s" "entrances (setMode m s) = entrances s"
  "selectedZoneIndex (setMode m s) = selectedZoneIndex s"
  "selectedFurnitureIndex (setMode m s) = selectedFurnitureIndex s"
  "selectedEntranceIndex (setMode m s) = selectedEntranceIndex s"
  "selectedEdgeIndex (setMode m s) = selectedEdgeIndex s"
  "mode (setMode m s) = m" "isDrawing (setMode m s) = False"
  "startPoint (setMode m s) = None"
  "events (setMode m s) = events s @ [OnPreviewUpdate None, OnModeChange m]"
  by (simp_all add: setMode_def)

section \<open>Running the handlers on the scenarios\<close>

lemma sqrt_le_iff_sq:
  fixes a b :: real
  assumes "0 \<le> b"
  shows "sqrt a \<le> b \<longleftrightarrow> a \<le> b * b"
proof -
  have "sqrt a \<le> b \<longleftrightarrow> sqrt a \<le> sqrt (b * b)"
    using assms by simp
  also have "\<dots> \<longleftrightarrow> a \<le> b * b"
    by (rule real_sqrt_le_iff)
  finally show ?thesis .
qed

lemmas run_defs = handleMouseDown_def handleMouseMove_def handleMouseUp_def
  handleSelectMouseDown_def handleSelectMouseMove_def selectDownFurniture_def selectDownZone_def
  selectDownEntrance_def selectDownEdge_def selectDownSearch_def finishRectangle_def
  handleRectangleMouseDown_def getNextAvailableZoneSlot_def resizeZone_def resizeEdge_def
  getHandleAtPoint_def getEdgeHandleAtPoint_def boxHandles_def mkHandle_def handleHit_def
  getZoneCorners_def writeHandleFields_def setX_def setY_def storeAt_def atIndex_def elemAt_def
  toSensorCoords_def toCanvasCoords_def toCanvasX_def toCanvasY_def toSensorX_def toSensorY_def
  setMode_def resetDrawingState_def updateCursor_def emit_def clearOtherSelections_def
  isPointInZone_def isPointInEdge_def isPointInFurniture_def isPointInEntrance_def
  handleSize_def furnitureHandleSize_def Math_round_def Let_def threeFree_def
  newDrawingManager_def defaultZone_def canvas0_eq completeEdgeDrawing_def
  handleEdgeMouseDown_def updateEdgePreview_def updateRectanglePreview_def
  updatePolygonPreview_def centreOffset_def handlePolygonClick_def finishPolygon_def
  handleDoubleClick_def handleKeyDown_def handleFurniturePlacement_def
  handleEntrancePlacement_def getFurnitureDefaultSize_def furnitureSizes_def
  getFurnitureHandleAtPoint_def furnitureHandleAt_def hoverFurniture_def hoverZone_def
  hoverEdge_def hoverAny_def moveFurniture_def moveZone_def moveEdge_def moveEntrance_def
  resizeFurniture_def deleteSelectedZone_def deleteSelectedEdge_def
  deleteSelectedFurniture_def deleteSelectedEntrance_def handleRightClickDrag_def
  finishMoveMode_def splice1_def clampShift_def stateAfter_def drawSquare_def
  rectangleTool_def edgeTool_def chairTool_def sqrt_le_iff_sq

lemmas scenario_defs = squareDrawn_def secondRectangle_def edgeDrawn_def edgeSelected_def
  chairPlaced_def chairSelected_def

lemma squareDrawn_fields:
  "zones squareDrawn =
     [\<lparr>x1 = 0, y1 = 0, x2 = 1000, y2 = 1000, enabled = True, shapeType = Rectangle,
       vertices = None, zoneType = Some Detection\<rparr>, defaultZone, defaultZone]"
  "edges squareDrawn = []"
  "selectedZoneIndex squareDrawn = Some 0" "mode squareDrawn = Select"
  "dragOffset squareDrawn = (0, 0)"
  by (simp_all add: scenario_defs run_defs)


lemma edgeSelected_fields:
  "edges edgeSelected = [\<lparr>x1 = 0, y1 = 0, x2 = 1000, y2 = 1000, edgeId = EdgeId 1\<rparr>]"
  "zones edgeSelected = [defaultZone, defaultZone, defaultZone]"
  "selectedEdgeIndex edgeSelected = Some 0" "mode edgeSelected = Select"
  "selectedZoneIndex edgeSelected = None" "selectedFurnitureIndex edgeSelected = None"
  "selectedEntranceIndex edgeSelected = None"
  by (simp_all add: scenario_defs run_defs)

lemma chairSelected_fields:
  "furniture chairSelected =
     [\<lparr>ident = FurnitureId 1, itemX = 0, itemY = 3000, ftype = ''chair'', rotation = 0,
       width = 700, height = 700\<rparr>]"
  "selectedFurnitureIndex chairSelected = Some 0" "mode chairSelected = Select"
  "selectedZoneIndex chairSelected = None" "selectedEntranceIndex chairSelected = None"
  "selectedEdgeIndex chairSelected = None"
  by (simp_all add: scenario_defs run_defs)

section \<open>Normalized bounding boxes\<close>

lemma Math_round_mono: "a \<le> b \<Longrightarrow> Math_round a \<le> Math_round b"
  by (simp add: Math_round_def floor_mono)

lemma snap_mono: "a \<le> b \<Longrightarrow> Math_round (a / 100) * 100 \<le> Math_round (b / 100) * 100"
  using Math_round_mono [of "a / 100" "b / 100"] by (simp add: divide_right_mono)

lemma atIndex_Some:
  "atIndex xs io = Some v \<longleftrightarrow> (\<exists>i. io = Some i \<and> i < length xs \<and> xs ! i = v)"
  by (cases io) (auto simp add: atIndex_def elemAt_def)

lemma list_all_update:
  assumes "list_all P xs" and "P v"
  shows "list_all P (xs[i := v])"
proof -
  have "set (xs[i := v]) \<subseteq> insert v (set xs)"
    by (rule set_update_subset_insert)
  with assms show ?thesis
    unfolding list_all_iff by blast
qed

lemma list_all_storeAt:
  assumes "list_all P xs" and "P v"
  shows "list_all P (storeAt xs io v)"
  using assms by (cases io) (simp_all add: storeAt_def list_all_update)

lemma Min_le_Max_list:
  fixes xs :: "real list"
  assumes "xs \<noteq> []"
  shows "Min (set xs) \<le> Max (set xs)"
proof -
  from assms have "hd xs \<in> set xs"
    by simp
  then have "Min (set xs) \<le> hd xs" and "hd xs \<le> Max (set xs)"
    by simp_all
  then show ?thesis
    by linarith
qed

text \<open>What a completed rectangle does, by the size of the snapped rectangle.\<close>

lemma finishRectangle_reject:
  assumes "getNextAvailableZoneSlot s = Inr slot" and "slot \<noteq> - 1"
    and "startPoint s = Some sp"
    and "\<bar>snapTo 100 (fst p) - snapTo 100 (fst sp)\<bar> < 200
         \<or> \<bar>snapTo 100 (snd p) - snapTo 100 (snd sp)\<bar> < 200"
  shows "finishRectangle p s = Inr (resetDrawingState (emit (OnError ZoneTooSmall) s))"
  using assms by (simp add: finishRectangle_def snapTo_def Let_def)

lemma finishRectangle_commit:
  assumes "getNextAvailableZoneSlot s = Inr slot" and "slot \<noteq> - 1"
    and "startPoint s = Some sp"
    and "\<not> (\<bar>snapTo 100 (fst p) - snapTo 100 (fst sp)\<bar> < 200
         \<or> \<bar>snapTo 100 (snd p) - snapTo 100 (snd sp)\<bar> < 200)"
  shows "finishRectangle p s =
     Inr (emit (OnZoneCreated (nat slot))
       (setMode Select
         ((resetDrawingState
            (s\<lparr>zones := (zones s)[nat slot := (zones s ! nat slot)
                  \<lparr>enabled := True, shapeType := Rectangle,
                   x1 := min (snapTo 100 (fst sp)) (snapTo 100 (fst p)),
                   y1 := min (snapTo 100 (snd sp)) (snapTo 100 (snd p)),
                   x2 := max (snapTo 100 (fst sp)) (snapTo 100 (fst p)),
                   y2 := max (snapTo 100 (snd sp)) (snapTo 100 (snd p)),
                   vertices := None,
                   zoneType := (case zoneType (zones s ! nat slot) of
                                  None \<Rightarrow> Some Detection | Some t \<Rightarrow> Some t)\<rparr>]\<rparr>))
          \<lparr>selectedZoneIndex := Some (nat slot)\<rparr>)))"
proof -
  from getNextAvailableZoneSlot_range [OF assms(1,2)]
  have "elemAt (zones s) (nat slot) = Some (zones s ! nat slot)"
    by (simp add: elemAt_in)
  with assms show ?thesis
    by (simp add: finishRectangle_def snapTo_def Let_def)
qed

lemma finishRectangle_cases:
  assumes "finishRectangle p s = Inr s'"
  obtains (unchanged) "zones s' = zones s" and "edges s' = edges s"
  | (commit) slot sp where "getNextAvailableZoneSlot s = Inr slot" and "slot \<noteq> - 1"
      and "startPoint s = Some sp"
      and "\<not> (\<bar>snapTo 100 (fst p) - snapTo 100 (fst sp)\<bar> < 200
             \<or> \<bar>snapTo 100 (snd p) - snapTo 100 (snd sp)\<bar> < 200)"
proof (cases "getNextAvailableZoneSlot s")
  case (Inl e)
  with assms show ?thesis
    by (simp add: finishRectangle_def)
next
  case (Inr slot)
  show ?thesis
  proof (cases "slot = - 1")
    case True
    with Inr assms have "s' = s"
      by (simp add: finishRectangle_def)
    then show ?thesis
      by (simp add: unchanged)
  next
    case False
    show ?thesis
    proof (cases "startPoint s")
      case None
      with Inr False assms show ?thesis
        by (simp add: finishRectangle_def)
    next
      case (Some sp)
      show ?thesis
      proof (cases "\<bar>snapTo 100 (fst p) - snapTo 100 (fst sp)\<bar> < 200
                    \<or> \<bar>snapTo 100 (snd p) - snapTo 100 (snd sp)\<bar> < 200")
        case True
        from finishRectangle_reject [OF Inr False Some True] assms
        have "s' = resetDrawingState (emit (OnError ZoneTooSmall) s)"
          by simp
        then show ?thesis
          by (simp add: unchanged)
      next
        case big: False
        from Inr False Some big show ?thesis
          by (rule commit)
      qed
    qed
  qed
qed

lemma finishRectangle_normalized:
  assumes "allNormalized s" and "finishRectangle p s = Inr s'"
  shows "allNormalized s'"
  using assms(2)
proof (cases rule: finishRectangle_cases)
  case unchanged
  with assms(1) show ?thesis
    by (simp add: allNormalized_def)
next
  case (commit slot sp)
  from finishRectangle_commit [OF commit] assms show ?thesis
    by (auto simp add: allNormalized_def normalized_def intro!: list_all_update)
qed

lemma finishPolygon_normalized:
  assumes "allNormalized s" and "finishPolygon s = Inr s'"
  shows "allNormalized s'"
proof (cases "getNextAvailableZoneSlot s")
  case (Inl e)
  with assms(2) show ?thesis
    by (simp add: finishPolygon_def)
next
  case (Inr slot)
  show ?thesis
  proof (cases "slot = - 1 \<or> length (polygonVertices s) < 3")
    case True
    then consider "slot = - 1" | "slot \<noteq> - 1" "length (polygonVertices s) < 3"
      by blast
    then show ?thesis
    proof cases
      case 1
      with Inr assms show ?thesis
        by (simp add: finishPolygon_def)
    next
      case 2
      with Inr assms(2)
      have "s' = resetDrawingState (emit (OnError PolygonNeedsVertices) s)"
        by (simp add: finishPolygon_def)
      with assms(1) show ?thesis
        by (simp add: allNormalized_def)
    qed
  next
    case False
    then have ne: "map fst (polygonVertices s) \<noteq> []" "map snd (polygonVertices s) \<noteq> []"
      by auto
    from False Inr getNextAvailableZoneSlot_range [of s slot]
    have at: "elemAt (zones s) (nat slot) = Some (zones s ! nat slot)"
      by (simp add: elemAt_in)
    from False Inr at assms Min_le_Max_list [OF ne(1)] Min_le_Max_list [OF ne(2)]
    show ?thesis
      by (auto simp add: finishPolygon_def allNormalized_def normalized_def Let_def
          intro!: list_all_update)
  qed
qed

lemma completeEdgeDrawing_normalized:
  assumes "allNormalized s"
  shows "allNormalized (completeEdgeDrawing now s)"
  using assms
  by (auto simp add: completeEdgeDrawing_def allNormalized_def normalized_def Let_def
      split: option.splits)

lemma clampShift_ordered:
  assumes "fst new \<le> snd new" and "0 \<le> extent"
  shows "fst (clampShift lo hi extent new) \<le> snd (clampShift lo hi extent new)"
  using assms by (simp add: clampShift_def Let_def)

lemma moveZone_normalized:
  assumes "allNormalized s" and "moveZone p s = Inr s'"
  shows "allNormalized s'"
proof (cases "atIndex (zones s) (selectedZoneIndex s)")
  case None
  with assms(2) show ?thesis
    by (simp add: moveZone_def)
next
  case (Some z)
  define w where "w = x2 (getZoneCorners z) - x1 (getZoneCorners z)"
  define h where "h = y2 (getZoneCorners z) - y1 (getZoneCorners z)"
  define cX where "cX = fst p - fst (dragOffset s)"
  define cY where "cY = snd p - snd (dragOffset s)"
  define xc where "xc = clampShift (- 3000) 3000 w (cX - w / 2, cX + w / 2)"
  define yc where "yc = clampShift 0 6000 h (cY - h / 2, cY + h / 2)"
  have wh: "0 \<le> w" "0 \<le> h"
    by (simp_all add: w_def h_def getZoneCorners_def)
  have ord: "fst xc \<le> snd xc" "fst yc \<le> snd yc"
    unfolding xc_def yc_def using wh by (simp_all add: clampShift_ordered)
  have s': "s' = emit (OnZoneUpdate (selectedZoneIndex s))
                  (s\<lparr>zones := storeAt (zones s) (selectedZoneIndex s)
                        (z\<lparr>x1 := Math_round (fst xc / 100) * 100,
                           x2 := Math_round (snd xc / 100) * 100,
                           y1 := Math_round (fst yc / 100) * 100,
                           y2 := Math_round (snd yc / 100) * 100\<rparr>)\<rparr>)"
    using assms(2) Some
    by (simp add: moveZone_def Let_def xc_def yc_def w_def h_def cX_def cY_def)
  show ?thesis
    unfolding s' using assms(1) snap_mono [OF ord(1)] snap_mono [OF ord(2)]
    by (auto simp add: allNormalized_def normalized_def intro!: list_all_storeAt)
qed

lemma moveZoneToPosition_normalized:
  assumes "allNormalized s"
  shows "allNormalized (moveZoneToPosition p s)"
  using assms
  by (auto simp add: moveZoneToPosition_def allNormalized_def normalized_def Let_def
      split: option.splits intro!: list_all_storeAt)

lemma moveEdge_normalized:
  assumes "allNormalized s"
  shows "allNormalized (moveEdge p s)"
  using assms
  by (auto simp add: moveEdge_def allNormalized_def normalized_def Let_def
      split: option.splits intro!: list_all_storeAt)

text \<open>
  Every writer of a bounding box other than the resize stores ordered corners: if
  every enabled zone and every edge is normalized, it still is after completing a
  rectangle, a polygon or an edge, and after dragging a zone, moving it in move mode
  or dragging an edge.
\<close>

lemma create_and_move_keep_normalized:
  assumes "allNormalized s"
  shows "(\<forall>s'. finishRectangle p s = Inr s' \<longrightarrow> allNormalized s')
       \<and> (\<forall>s'. finishPolygon s = Inr s' \<longrightarrow> allNormalized s')
       \<and> allNormalized (completeEdgeDrawing now s)
       \<and> (\<forall>s'. moveZone p s = Inr s' \<longrightarrow> allNormalized s')
       \<and> allNormalized (moveZoneToPosition p s)
       \<and> allNormalized (moveEdge p s)"
proof (intro conjI allI impI)
  fix s' assume "finishRectangle p s = Inr s'"
  with assms show "allNormalized s'"
    by (rule finishRectangle_normalized)
next
  fix s' assume "finishPolygon s = Inr s'"
  with assms show "allNormalized s'"
    by (rule finishPolygon_normalized)
next
  show "allNormalized (completeEdgeDrawing now s)"
    using assms by (rule completeEdgeDrawing_normalized)
next
  fix s' assume "moveZone p s = Inr s'"
  with assms show "allNormalized s'"
    by (rule moveZone_normalized)
next
  show "allNormalized (moveZoneToPosition p s)"
    using assms by (rule moveZoneToPosition_normalized)
next
  show "allNormalized (moveEdge p s)"
    using assms by (rule moveEdge_normalized)
qed

text \<open>
  A resize that does not carry the written side past the opposite one keeps the box
  normalized.
\<close>

lemma writeHandleFields_normalized:
  assumes "normalized b"
    and "updateX h = Some X1 \<longrightarrow> x \<le> x2 b" and "updateX h = Some X2 \<longrightarrow> x1 b \<le> x"
    and "updateY h = Some Y1 \<longrightarrow> y \<le> y2 b" and "updateY h = Some Y2 \<longrightarrow> y1 b \<le> y"
  shows "normalized (writeHandleFields h x y b)"
  using assms
  by (simp add: writeHandleFields_def setX_def setY_def normalized_def Let_def
      split: option.splits xField.splits yField.splits)

text \<open>
  C4.  The square from (0, 0) to (1000, 1000) is drawn and selected, and its box is
  normalized.  The handle on its left side is pressed and dragged past the right side,
  to x = 2000: the resize stores \<open>x1 = 2000\<close> above \<open>x2 = 1000\<close>, so the stored box
  of the enabled zone is not normalized; the same gesture does the same to the edge.
  The handles are placed on the ordered corners but name the stored fields: pressing
  the handle on the left side of the box now shown, from 1000 to 2000, and dragging it
  to x = 500 writes \<open>x1\<close>, which holds the right side, and the box becomes the one
  from 500 to 1000.
\<close>

theorem C4_resize_stores_inverted_box:
  "normalized (zones squareDrawn ! 0)
   \<and> run (grabWest @ [MouseMove (500, 550)]) squareDrawn = Inr zoneDraggedWest
   \<and> enabled (zones zoneDraggedWest ! 0)
   \<and> x1 (zones zoneDraggedWest ! 0) = 2000 \<and> x2 (zones zoneDraggedWest ! 0) = 1000
   \<and> \<not> normalized (zones zoneDraggedWest ! 0)
   \<and> run [MouseUp 3 0 (500, 550), MouseDown 4 0 (400, 550), MouseMove (350, 550)]
         zoneDraggedWest = Inr zoneRegrabbed
   \<and> x1 (zones zoneRegrabbed ! 0) = 500 \<and> x2 (zones zoneRegrabbed ! 0) = 1000
   \<and> normalized (edges edgeSelected ! 0)
   \<and> run (grabWest @ [MouseMove (500, 550)]) edgeSelected = Inr edgeDraggedWest
   \<and> x1 (edges edgeDraggedWest ! 0) = 2000 \<and> x2 (edges edgeDraggedWest ! 0) = 1000
   \<and> \<not> normalized (edges edgeDraggedWest ! 0)"
proof -
  have a: "normalized (zones squareDrawn ! 0)"
    by (simp add: normalized_def squareDrawn_fields)
  have b: "run (grabWest @ [MouseMove (500, 550)]) squareDrawn = Inr zoneDraggedWest"
    by (simp add: zoneDraggedWest_def grabWest_def scenario_defs run_defs)
  have c: "enabled (zones zoneDraggedWest ! 0)" "x1 (zones zoneDraggedWest ! 0) = 2000"
    "x2 (zones zoneDraggedWest ! 0) = 1000"
    by (simp_all add: zoneDraggedWest_def grabWest_def scenario_defs run_defs)
  have d: "\<not> normalized (zones zoneDraggedWest ! 0)"
    using c by (simp add: normalized_def)
  have e: "run [MouseUp 3 0 (500, 550), MouseDown 4 0 (400, 550), MouseMove (350, 550)]
             zoneDraggedWest = Inr zoneRegrabbed"
    by (simp add: zoneRegrabbed_def zoneDraggedWest_def grabWest_def scenario_defs run_defs)
  have f: "x1 (zones zoneRegrabbed ! 0) = 500" "x2 (zones zoneRegrabbed ! 0) = 1000"
    by (simp_all add: zoneRegrabbed_def zoneDraggedWest_def grabWest_def scenario_defs
        run_defs)
  have g: "normalized (edges edgeSelected ! 0)"
    by (simp add: normalized_def edgeSelected_fields)
  have h: "run (grabWest @ [MouseMove (500, 550)]) edgeSelected = Inr edgeDraggedWest"
    by (simp add: edgeDraggedWest_def grabWest_def scenario_defs run_defs)
  have i: "x1 (edges edgeDraggedWest ! 0) = 2000" "x2 (edges edgeDraggedWest ! 0) = 1000"
    by (simp_all add: edgeDraggedWest_def grabWest_def scenario_defs run_defs)
  have j: "\<not> normalized (edges edgeDraggedWest ! 0)"
    using i by (simp add: normalized_def)
  show ?thesis
    using a b c d e f g h i j by blast
qed

section \<open>Completing a rectangle\<close>

text \<open>
  C5.  With a free slot and a recorded start corner, completing a rectangle snaps both
  corners to the 100mm grid.  If a snapped side is below 200mm the gesture is rejected:
  the error is reported once, the gesture state is reset, and the registry, the
  selection and the mode are as before.  Otherwise the zone of the free slot is written
  as an enabled rectangle with the ordered snapped corners, its zone type set to
  detection if it had none, it is selected, and the mode is select.
\<close>

theorem C5_finishRectangle:
  assumes "getNextAvailableZoneSlot s = Inr slot" and "slot \<noteq> - 1"
    and "startPoint s = Some sp"
  shows "\<exists>s'. finishRectangle p s = Inr s' \<and>
     (if \<bar>snapTo 100 (fst p) - snapTo 100 (fst sp)\<bar> < 200
         \<or> \<bar>snapTo 100 (snd p) - snapTo 100 (snd sp)\<bar> < 200
      then events s' = events s @ [OnError ZoneTooSmall, OnPreviewUpdate None]
         \<and> zones s' = zones s \<and> edges s' = edges s
         \<and> furniture s' = furniture s \<and> entrances s' = entrances s
         \<and> selectedZoneIndex s' = selectedZoneIndex s \<and> mode s' = mode s
         \<and> \<not> isDrawing s' \<and> startPoint s' = None
      else zones s' = (zones s)[nat slot := (zones s ! nat slot)
                  \<lparr>enabled := True, shapeType := Rectangle,
                   x1 := min (snapTo 100 (fst sp)) (snapTo 100 (fst p)),
                   y1 := min (snapTo 100 (snd sp)) (snapTo 100 (snd p)),
                   x2 := max (snapTo 100 (fst sp)) (snapTo 100 (fst p)),
                   y2 := max (snapTo 100 (snd sp)) (snapTo 100 (snd p)),
                   vertices := None,
                   zoneType := (case zoneType (zones s ! nat slot) of
                                  None \<Rightarrow> Some Detection | Some t \<Rightarrow> Some t)\<rparr>]
         \<and> edges s' = edges s \<and> furniture s' = furniture s \<and> entrances s' = entrances s
         \<and> selectedZoneIndex s' = Some (nat slot) \<and> mode s' = Select
         \<and> \<not> isDrawing s' \<and> startPoint s' = None
         \<and> events s' = events s @ [OnPreviewUpdate None, OnPreviewUpdate None,
                                    OnModeChange Select, OnZoneCreated (nat slot)])"
proof (cases "\<bar>snapTo 100 (fst p) - snapTo 100 (fst sp)\<bar> < 200
              \<or> \<bar>snapTo 100 (snd p) - snapTo 100 (snd sp)\<bar> < 200")
  case True
  have "finishRectangle p s = Inr (resetDrawingState (emit (OnError ZoneTooSmall) s))"
    using assms True by (rule finishRectangle_reject)
  with True show ?thesis
    by simp
next
  case False
  note commit = finishRectangle_commit [OF assms False]
  show ?thesis
    unfolding commit using False by simp
qed

theorem C5_finishRectangle_witness:
  "getNextAvailableZoneSlot drawingFromOrigin = Inr 0
   \<and> startPoint drawingFromOrigin = Some (0, 0)
   \<and> \<not> isl (finishRectangle (50, 50) drawingFromOrigin)
   \<and> zones (projr (finishRectangle (50, 50) drawingFromOrigin)) = zones drawingFromOrigin
   \<and> events (projr (finishRectangle (50, 50) drawingFromOrigin))
       = events drawingFromOrigin @ [OnError ZoneTooSmall, OnPreviewUpdate None]
   \<and> \<not> isl (finishRectangle (300, 300) drawingFromOrigin)
   \<and> zones (projr (finishRectangle (300, 300) drawingFromOrigin))
       = [\<lparr>x1 = 0, y1 = 0, x2 = 300, y2 = 300, enabled = True, shapeType = Rectangle,
           vertices = None, zoneType = Some Detection\<rparr>, defaultZone, defaultZone]
   \<and> mode (projr (finishRectangle (300, 300) drawingFromOrigin)) = Select
   \<and> selectedZoneIndex (projr (finishRectangle (300, 300) drawingFromOrigin)) = Some 0"
proof -
  have zs: "zones drawingFromOrigin = [defaultZone, defaultZone, defaultZone]"
    by (simp add: drawingFromOrigin_def run_defs)
  have slot: "getNextAvailableZoneSlot drawingFromOrigin = Inr 0"
    by (simp add: getNextAvailableZoneSlot_def zs elemAt_def defaultZone_def)
  have sp: "startPoint drawingFromOrigin = Some (0, 0)"
    by (simp add: drawingFromOrigin_def run_defs)
  have ne: "(0::int) \<noteq> - 1"
    by simp
  from C5_finishRectangle [OF slot ne sp, of "(50, 50)"]
  obtain s1 where s1: "finishRectangle (50, 50) drawingFromOrigin = Inr s1"
    and r1: "zones s1 = zones drawingFromOrigin"
      "events s1 = events drawingFromOrigin @ [OnError ZoneTooSmall, OnPreviewUpdate None]"
    by (auto simp add: snapTo_def Math_round_def)
  from C5_finishRectangle [OF slot ne sp, of "(300, 300)"]
  obtain s2 where s2: "finishRectangle (300, 300) drawingFromOrigin = Inr s2"
    and r2: "zones s2 = [\<lparr>x1 = 0, y1 = 0, x2 = 300, y2 = 300, enabled = True,
                           shapeType = Rectangle, vertices = None, zoneType = Some Detection\<rparr>,
                         defaultZone, defaultZone]"
      "mode s2 = Select" "selectedZoneIndex s2 = Some 0"
    by (auto simp add: snapTo_def Math_round_def zs defaultZone_def)
  show ?thesis
    unfolding s1 s2 using slot sp r1 r2 by simp
qed


section \<open>Minimum dimensions\<close>









section \<open>Placing furniture and entrances on the grid\<close>

text \<open>
  C8 (as amended).  A furniture placement (while a furniture type is being placed) and
  an entrance placement append a shape whose coordinates are the pointer coordinates
  rounded to the nearest multiple of 100mm, not of 50mm.
\<close>

theorem C8_placement_snaps_to_100:
  "(placingFurniture s = Some t \<and> t \<noteq> [] \<longrightarrow>
      (\<exists>f. furniture (handleFurniturePlacement now p s) = furniture s @ [f]
           \<and> itemX f = snapTo 100 (fst p) \<and> itemY f = snapTo 100 (snd p)))
   \<and> (\<exists>en. entrances (handleEntrancePlacement now p s) = entrances s @ [en]
           \<and> itemX en = snapTo 100 (fst p) \<and> itemY en = snapTo 100 (snd p))"
  by (simp add: handleFurniturePlacement_def handleEntrancePlacement_def snapTo_def Let_def)

theorem C8_placement_snaps_to_100_witness:
  "placingFurniture chairTool = Some ''chair'' \<and> ''chair'' \<noteq> []
   \<and> map itemX (furniture (handleFurniturePlacement 1 (140, 260) chairTool)) = [100]
   \<and> map itemY (furniture (handleFurniturePlacement 1 (140, 260) chairTool)) = [300]
   \<and> map itemX (entrances (handleEntrancePlacement 1 (140, 260) entranceTool)) = [100]
   \<and> map itemY (entrances (handleEntrancePlacement 1 (140, 260) entranceTool)) = [300]"
proof -
  have pf: "placingFurniture chairTool = Some ''chair''"
    by (simp add: chairTool_def)
  have fs: "furniture chairTool = []"
    by (simp add: chairTool_def threeFree_def newDrawingManager_def)
  have es: "entrances entranceTool = []"
    by (simp add: entranceTool_def threeFree_def newDrawingManager_def)
  have snaps: "snapTo 100 140 = 100" "snapTo 100 260 = 300"
    by (simp_all add: snapTo_def Math_round_def)
  from C8_placement_snaps_to_100 [of chairTool "''chair''" 1 "(140, 260)"] pf
  obtain f where "furniture (handleFurniturePlacement 1 (140, 260) chairTool) = furniture chairTool @ [f]"
    and "itemX f = snapTo 100 140" and "itemY f = snapTo 100 260"
    by auto
  then have f: "map itemX (furniture (handleFurniturePlacement 1 (140, 260) chairTool)) = [100]"
    "map itemY (furniture (handleFurniturePlacement 1 (140, 260) chairTool)) = [300]"
    by (simp_all add: fs snaps)
  from C8_placement_snaps_to_100 [of entranceTool _ 1 "(140, 260)"]
  obtain en where "entrances (handleEntrancePlacement 1 (140, 260) entranceTool)
                     = entrances entranceTool @ [en]"
    and "itemX en = snapTo 100 140" and "itemY en = snapTo 100 260"
    by auto
  then have e: "map itemX (entrances (handleEntrancePlacement 1 (140, 260) entranceTool)) = [100]"
    "map itemY (entrances (handleEntrancePlacement 1 (140, 260) entranceTool)) = [300]"
    by (simp_all add: es snaps)
  show ?thesis
    using pf f e by simp
qed

text \<open>
  A click at the pixel (304, 596) is the sensor position (40, 40), whose nearest
  multiple of 50mm is 50 in both coordinates; the chair and the entrance placed there
  are committed at (0, 0).
\<close>

theorem C8_counterexample:
  "toSensorCoords canvas0 304 596 = (40, 40) \<and> snapTo 50 40 = 50
   \<and> run [MouseDown 1 0 (304, 596)] chairTool = Inr chairAt40
   \<and> map itemX (furniture chairAt40) = [0] \<and> map itemY (furniture chairAt40) = [0]
   \<and> run [MouseDown 1 0 (304, 596)] entranceTool = Inr entranceAt40
   \<and> map itemX (entrances entranceAt40) = [0] \<and> map itemY (entrances entranceAt40) = [0]"
proof -
  have a: "toSensorCoords canvas0 304 596 = (40, 40)"
    by (simp add: run_defs)
  have b: "snapTo 50 40 = 50"
    by (simp add: snapTo_def Math_round_def)
  have c: "run [MouseDown 1 0 (304, 596)] chairTool = Inr chairAt40"
    by (simp add: chairAt40_def entranceAt40_def entranceTool_def run_defs)
  have d: "map itemX (furniture chairAt40) = [0]" "map itemY (furniture chairAt40) = [0]"
    by (simp_all add: chairAt40_def entranceAt40_def entranceTool_def run_defs)
  have e: "run [MouseDown 1 0 (304, 596)] entranceTool = Inr entranceAt40"
    by (simp add: chairAt40_def entranceAt40_def entranceTool_def run_defs)
  have f: "map itemX (entrances entranceAt40) = [0]" "map itemY (entrances entranceAt40) = [0]"
    by (simp_all add: chairAt40_def entranceAt40_def entranceTool_def run_defs)
  show ?thesis
    using a b c d e f by blast
qed

section \<open>A stale selection index\<close>

text \<open>
  C7.  The chair has been placed and selected, and the furniture list has then been
  emptied by the host, so the selected index 0 names no furniture.  The next
  pointer-down in select mode throws, and so do a pointer-move, the drag-move and the
  resize of the furniture: each reads a field of the missing item.
\<close>

theorem C7_stale_furniture_index_throws:
  "selectedFurnitureIndex staleChair = Some 0 \<and> furniture staleChair = []
   \<and> mode staleChair = Select
   \<and> run [MouseDown 3 0 (300, 300)] staleChair = Inl TypeError
   \<and> run [MouseMove (300, 300)] staleChair = Inl TypeError
   \<and> moveFurniture (0, 3000) staleChair = Inl TypeError
   \<and> resizeFurniture (0, 3000) staleChair = Inl TypeError"
proof -
  have a: "selectedFurnitureIndex staleChair = Some 0" "furniture staleChair = []"
    "mode staleChair = Select" "isMoving staleChair = False" "isDragging staleChair = False"
    by (simp_all add: staleChair_def scenario_defs run_defs)
  have b: "run [MouseDown 3 0 (300, 300)] staleChair = Inl TypeError"
    by (simp add: a handleMouseDown_def handleSelectMouseDown_def selectDownFurniture_def
        getFurnitureHandleAtPoint_def isPointInFurniture_def elemAt_def Let_def)
  have c: "run [MouseMove (300, 300)] staleChair = Inl TypeError"
    by (simp add: a handleMouseMove_def handleSelectMouseMove_def hoverFurniture_def
        getFurnitureHandleAtPoint_def isPointInFurniture_def elemAt_def Let_def)
  have d: "moveFurniture (0, 3000) staleChair = Inl TypeError"
    by (simp add: a moveFurniture_def atIndex_def elemAt_def)
  have e: "resizeFurniture (0, 3000) staleChair = Inl TypeError"
    by (simp add: a resizeFurniture_def atIndex_def elemAt_def)
  show ?thesis
    using a(1-3) b c d e by blast
qed

text \<open>
  The paths that test the item first do nothing on a stale index: dragging or
  resizing an edge, and the explicit move of furniture, a zone or an entrance.
\<close>

lemma stale_index_guarded:
  "atIndex (edges s) (selectedEdgeIndex s) = None \<Longrightarrow> moveEdge p s = s"
  "atIndex (edges s) (selectedEdgeIndex s) = None \<Longrightarrow> resizeEdge p s = Inr s"
  "atIndex (furniture s) (movingItemIndex s) = None \<Longrightarrow> moveFurnitureToPosition p s = s"
  "atIndex (zones s) (movingItemIndex s) = None \<Longrightarrow> moveZoneToPosition p s = s"
  "atIndex (entrances s) (movingItemIndex s) = None \<Longrightarrow> moveEntranceToPosition p s = s"
  by (simp_all add: moveEdge_def resizeEdge_def moveFurnitureToPosition_def
      moveZoneToPosition_def moveEntranceToPosition_def)

section \<open>Delete and Backspace\<close>

text \<open>
  In select mode Delete and Backspace remove a selected entrance or a selected piece of
  furniture from its list and disable a selected zone, clearing the index.
\<close>

lemma handleKeyDown_deletes:
  assumes "mode s = Select" and "k = Delete \<or> k = Backspace"
  shows "selectedEntranceIndex s = Some i \<Longrightarrow>
           \<exists>s'. handleKeyDown k s = Inr s' \<and> entrances s' = splice1 i (entrances s)
                \<and> selectedEntranceIndex s' = None"
    and "selectedEntranceIndex s = None \<Longrightarrow> selectedFurnitureIndex s = Some i \<Longrightarrow>
           \<exists>s'. handleKeyDown k s = Inr s' \<and> furniture s' = splice1 i (furniture s)
                \<and> selectedFurnitureIndex s' = None"
    and "selectedEntranceIndex s = None \<Longrightarrow> selectedFurnitureIndex s = None \<Longrightarrow>
         selectedZoneIndex s = Some i \<Longrightarrow> i < length (zones s) \<Longrightarrow>
           \<exists>s'. handleKeyDown k s = Inr s' \<and> \<not> enabled (zones s' ! i)
                \<and> length (zones s') = length (zones s) \<and> selectedZoneIndex s' = None"
  using assms
  by (auto simp add: handleKeyDown_def deleteSelectedEntrance_def deleteSelectedFurniture_def
      deleteSelectedZone_def elemAt_def emit_def Let_def)

text \<open>
  C9.  With the edge selected in select mode, Delete and Backspace change nothing: the
  edge stays in its list and stays selected.  \<open>deleteSelectedEdge\<close>, which the key
  handler does not call, would remove it and clear the index.
\<close>

theorem C9_delete_key_ignores_selected_edge:
  "mode edgeSelected = Select \<and> selectedEdgeIndex edgeSelected = Some 0
   \<and> edges edgeSelected = [\<lparr>x1 = 0, y1 = 0, x2 = 1000, y2 = 1000, edgeId = EdgeId 1\<rparr>]
   \<and> run [KeyDown Delete] edgeSelected = Inr edgeSelected
   \<and> run [KeyDown Backspace] edgeSelected = Inr edgeSelected
   \<and> edges (deleteSelectedEdge edgeSelected) = []
   \<and> selectedEdgeIndex (deleteSelectedEdge edgeSelected) = None"
proof -
  have a: "run [KeyDown Delete] edgeSelected = Inr edgeSelected"
    "run [KeyDown Backspace] edgeSelected = Inr edgeSelected"
    by (simp_all add: handleKeyDown_def edgeSelected_fields)
  have b: "edges (deleteSelectedEdge edgeSelected) = []"
    "selectedEdgeIndex (deleteSelectedEdge edgeSelected) = None"
    by (simp_all add: deleteSelectedEdge_def edgeSelected_fields splice1_def)
  show ?thesis
    using a b edgeSelected_fields(1,3,4) by blast
qed

section \<open>Single selection\<close>

lemma clearOtherSelections_fields:
  "selectedZoneIndex (clearOtherSelections k s)
     = (if k = Some ZoneItem then selectedZoneIndex s else None)"
  "selectedFurnitureIndex (clearOtherSelections k s)
     = (if k = Some FurnitureItem then selectedFurnitureIndex s else None)"
  "selectedEntranceIndex (clearOtherSelections k s)
     = (if k = Some EntranceItem then selectedEntranceIndex s else None)"
  "selectedEdgeIndex (clearOtherSelections k s)
     = (if k = Some EdgeItem then selectedEdgeIndex s else None)"
  by (simp_all add: clearOtherSelections_def Let_def)

text \<open>
  A pointer-down that reaches the search for a shape under the pointer leaves at most
  one selection index set: the shape found, or none on empty space.
\<close>

lemma selectDownSearch_atMostOneSelected:
  "atMostOneSelected (selectDownSearch p s)"
  by (simp add: selectDownSearch_def atMostOneSelected_def selectionCount_def
      clearOtherSelections_fields Let_def split: option.splits)

lemma dragStart_selection:
  "selectionCount (s\<lparr>isDragging := a, dragOffset := b, cursor := c\<rparr>) = selectionCount s"
  "selectionCount (s\<lparr>selectedHandle := h, isDragging := a, startPoint := p\<rparr>) = selectionCount s"
  by (simp_all add: selectionCount_def)

lemma selectDownFurniture_selection:
  assumes "selectDownFurniture cc sc s = Inr (Some s')"
  shows "selectionCount s' = selectionCount s"
proof (cases "selectedFurnitureIndex s")
  case None
  with assms show ?thesis
    by (simp add: selectDownFurniture_def)
next
  case (Some idx)
  show ?thesis
  proof (cases "getFurnitureHandleAtPoint (radar s) (fst cc) (snd cc) (elemAt (furniture s) idx)")
    case h: (Some h)
    with Some assms show ?thesis
      by (auto simp add: selectDownFurniture_def Let_def dragStart_selection)
  next
    case None
    with Some assms show ?thesis
      by (auto simp add: selectDownFurniture_def Let_def dragStart_selection
          split: sum.splits option.splits if_splits)
  qed
qed

lemma selectDownZone_selection:
  assumes "selectDownZone cc sc s = Inr (Some s')"
  shows "selectionCount s' = selectionCount s"
proof (cases "selectedZoneIndex s")
  case None
  with assms show ?thesis
    by (simp add: selectDownZone_def)
next
  case (Some idx)
  with assms show ?thesis
    by (auto simp add: selectDownZone_def Let_def dragStart_selection
        split: sum.splits option.splits if_splits)
qed

lemma selectDownEntrance_selection:
  assumes "selectDownEntrance sc s = Some s'"
  shows "selectionCount s' = selectionCount s"
  using assms
  by (auto simp add: selectDownEntrance_def dragStart_selection
      split: option.splits if_splits)

lemma selectDownEdge_selection:
  assumes "selectDownEdge cc sc s = Some s'"
  shows "selectionCount s' = selectionCount s"
  using assms
  by (auto simp add: selectDownEdge_def Let_def dragStart_selection
      split: option.splits if_splits)

text \<open>
  So a pointer-down in select mode keeps the property: the blocks that start a drag or
  a resize leave the selection as it is, and the search selects one shape or none.
\<close>

lemma handleSelectMouseDown_atMostOneSelected:
  assumes "atMostOneSelected s" and "handleSelectMouseDown cc sc s = Inr s'"
  shows "atMostOneSelected s'"
proof -
  from assms(2) consider
      "selectDownFurniture cc sc s = Inr (Some s')"
    | "selectDownZone cc sc s = Inr (Some s')"
    | "selectDownEntrance sc s = Some s'"
    | "selectDownEdge cc sc s = Some s'"
    | "s' = selectDownSearch sc s"
    by (auto simp add: handleSelectMouseDown_def split: sum.splits option.splits)
  then show ?thesis
  proof cases
    case 1
    with assms(1) show ?thesis
      by (simp add: atMostOneSelected_def selectDownFurniture_selection)
  next
    case 2
    with assms(1) show ?thesis
      by (simp add: atMostOneSelected_def selectDownZone_selection)
  next
    case 3
    with assms(1) show ?thesis
      by (simp add: atMostOneSelected_def selectDownEntrance_selection)
  next
    case 4
    with assms(1) show ?thesis
      by (simp add: atMostOneSelected_def selectDownEdge_selection)
  next
    case 5
    then show ?thesis
      by (simp add: selectDownSearch_atMostOneSelected)
  qed
qed

text \<open>
  C10.  The chair is selected; the rectangle tool is chosen, which keeps the
  selection, and a square is drawn.  Its commit selects the new zone without clearing
  the furniture selection and without a selection callback, so two indices are set.
\<close>

theorem C10_draw_commit_leaves_two_selected:
  "selectedFurnitureIndex chairSelected = Some 0 \<and> selectionCount chairSelected = 1
   \<and> run drawSquare (setMode DrawRectangle chairSelected) = Inr twoSelected
   \<and> selectedZoneIndex twoSelected = Some 0
   \<and> selectedFurnitureIndex twoSelected = Some 0
   \<and> selectionCount twoSelected = 2
   \<and> \<not> atMostOneSelected twoSelected
   \<and> filter (\<lambda>ev. ev = OnZoneSelect (Some 0) \<or> ev = OnFurnitureSelect None)
        (events twoSelected) = []"
proof -
  have a: "selectionCount chairSelected = 1"
    by (simp add: selectionCount_def chairSelected_fields)
  have b: "run drawSquare (setMode DrawRectangle chairSelected) = Inr twoSelected"
    by (simp add: twoSelected_def scenario_defs run_defs)
  have c: "selectedZoneIndex twoSelected = Some 0" "selectedFurnitureIndex twoSelected = Some 0"
    "selectedEntranceIndex twoSelected = None" "selectedEdgeIndex twoSelected = None"
    by (simp_all add: twoSelected_def scenario_defs run_defs)
  have d: "selectionCount twoSelected = 2"
    by (simp add: selectionCount_def c)
  then have e: "\<not> atMostOneSelected twoSelected"
    by (simp add: atMostOneSelected_def)
  have f: "filter (\<lambda>ev. ev = OnZoneSelect (Some 0) \<or> ev = OnFurnitureSelect None)
             (events twoSelected) = []"
    by (simp add: twoSelected_def scenario_defs run_defs)
  show ?thesis
    using chairSelected_fields(2) a b c(1,2) d e f by blast
qed

end
